theory Spec2Isabelle
  imports Complex_Main "HOL-Library.Sublist"
begin

section \<open>Numbers and tensors\<close>

text \<open>
  The scalar type \<open>Number\<close> of the sources (\<open>double\<close> by default) is modelled by the
  real numbers.  Arithmetic is exact, with two exceptions: the transformations
  between conserved and primitive states round the result of every operation, and
  the quotient that decides the branch of the dynamic boundary condition is an
  infinity or not a number where the divisor is zero.  A rank-one
  \<open>dealii::Tensor<1, dim, Number>\<close> is a list of its \<open>dim\<close> components.
\<close>

definition numeric_limits_min :: real where
  \<comment> \<open>\<open>std::numeric_limits<double>::min()\<close>, the smallest positive normalized double\<close>
  "numeric_limits_min = 1 / 2 ^ 1022"

definition dot :: "real list \<Rightarrow> real list \<Rightarrow> real" where
  \<comment> \<open>\<open>operator*\<close> of two rank-one tensors: the scalar product\<close>
  "dot a b = sum_list (map2 (*) a b)"

definition norm_square :: "real list \<Rightarrow> real" where
  "norm_square a = sum_list (map (\<lambda>x. x * x) a)"

definition scale :: "real \<Rightarrow> real list \<Rightarrow> real list" where
  \<comment> \<open>\<open>operator*\<close> of a scalar and a rank-one tensor\<close>
  "scale c a = map (\<lambda>x. c * x) a"

definition tensor_add :: "real list \<Rightarrow> real list \<Rightarrow> real list" where
  "tensor_add a b = map2 (+) a b"

definition tensor_sub :: "real list \<Rightarrow> real list \<Rightarrow> real list" where
  "tensor_sub a b = map2 (-) a b"

subsection \<open>simd.h\<close>

definition positive_part :: "real \<Rightarrow> real" where
  "positive_part number = max 0 number"

definition fixed_power_2 :: "real \<Rightarrow> real" where
  \<comment> \<open>\<open>fixed_power<2>\<close>\<close>
  "fixed_power_2 x = x * x"

text \<open>
  Modelled from the spec: \<open>ryujin::pow\<close> is declared in simd.h ("custom serial pow
  function") and defined in a file that is not among the sources; \<open>std::pow\<close> is the
  library function.  Both are taken to be the real power function.  No result below
  depends on the values it returns.
\<close>

definition pow :: "real \<Rightarrow> real \<Rightarrow> real" where
  "pow x b = x powr b"

section \<open>The Euler equations with arbitrary equation of state\<close>

subsection \<open>safe\_division\<close>

definition safe_division :: "real \<Rightarrow> real \<Rightarrow> real" where
  "safe_division numerator denominator =
     max numerator 0 / max denominator numeric_limits_min"

subsection \<open>Equation of state and hyperbolic system\<close>

text \<open>
  The abstract class \<open>EquationOfState\<close> is used through its scalar pressure oracle, its
  \<open>prefer_vector_interface\<close> flag and its three interpolation parameters.
\<close>

record EquationOfState =
  name :: string
  pressure :: "real \<Rightarrow> real \<Rightarrow> real"
  prefer_vector_interface :: bool
  interpolation_b :: real
  interpolation_pinfty :: real
  interpolation_q :: real

record HyperbolicSystem =
  equation_of_state :: string
  reference_density :: real
  vacuum_state_relaxation_small :: real
  vacuum_state_relaxation_large :: real
  compute_strict_bounds :: bool
  equation_of_state_list :: "EquationOfState list"
  selected_equation_of_state :: EquationOfState
  problem_name :: string

text \<open>
  The conserved state \<open>[rho, m, E]\<close> is a tensor with \<open>2 + dim\<close> components; the
  record names the three parts that \<open>density\<close>, \<open>momentum\<close> and \<open>total_energy\<close>
  extract.  The same type holds a primitive state \<open>[rho, v, e]\<close>.
\<close>

record state_type =
  density :: real
  momentum :: "real list"
  total_energy :: real

definition eos_pressure :: "HyperbolicSystem \<Rightarrow> real \<Rightarrow> real \<Rightarrow> real" where
  "eos_pressure hs rho e = pressure (selected_equation_of_state hs) rho e"

definition eos_interpolation_b :: "HyperbolicSystem \<Rightarrow> real" where
  "eos_interpolation_b hs = interpolation_b (selected_equation_of_state hs)"

definition eos_interpolation_pinfty :: "HyperbolicSystem \<Rightarrow> real" where
  "eos_interpolation_pinfty hs = interpolation_pinfty (selected_equation_of_state hs)"

definition eos_interpolation_q :: "HyperbolicSystem \<Rightarrow> real" where
  "eos_interpolation_q hs = interpolation_q (selected_equation_of_state hs)"

subsection \<open>Derived physical quantities\<close>

definition internal_energy :: "state_type \<Rightarrow> real" where
  "internal_energy U =
     (let rho_inverse = 1 / density U;
          m = momentum U;
          E = total_energy U
      in E - 0.5 * norm_square m * rho_inverse)"

definition surrogate_specific_entropy :: "HyperbolicSystem \<Rightarrow> state_type \<Rightarrow> real \<Rightarrow> real" where
  "surrogate_specific_entropy hs U gamma_min =
     (let b = eos_interpolation_b hs;
          pinf = eos_interpolation_pinfty hs;
          q = eos_interpolation_q hs;
          rho = density U;
          rho_inverse = 1 / rho;
          covolume = 1 - b * rho;
          shift = internal_energy U - rho * q - pinf * covolume
      in shift * pow (rho_inverse - b) gamma_min / covolume)"

definition surrogate_harten_entropy :: "HyperbolicSystem \<Rightarrow> state_type \<Rightarrow> real \<Rightarrow> real" where
  "surrogate_harten_entropy hs U gamma_min =
     (let b = eos_interpolation_b hs;
          pinf = eos_interpolation_pinfty hs;
          q = eos_interpolation_q hs;
          rho = density U;
          m = momentum U;
          E = total_energy U;
          rho_rho_e_q = rho * E - 0.5 * norm_square m - rho * rho * q;
          exponent = 1 / (gamma_min + 1);
          covolume = 1 - b * rho;
          covolume_term = pow covolume (gamma_min - 1);
          rho_pinfcov = rho * pinf * covolume
      in pow (positive_part (rho_rho_e_q - rho_pinfcov) * covolume_term) exponent)"

definition surrogate_gamma :: "HyperbolicSystem \<Rightarrow> state_type \<Rightarrow> real \<Rightarrow> real" where
  "surrogate_gamma hs U p =
     (let b = eos_interpolation_b hs;
          pinf = eos_interpolation_pinfty hs;
          q = eos_interpolation_q hs;
          rho = density U;
          rho_e = internal_energy U;
          covolume = 1 - b * rho;
          numerator = (p + pinf) * covolume;
          denominator = rho_e - rho * q - covolume * pinf
      in 1 + safe_division numerator denominator)"

definition surrogate_pressure :: "HyperbolicSystem \<Rightarrow> state_type \<Rightarrow> real \<Rightarrow> real" where
  "surrogate_pressure hs U gamma =
     (let b = eos_interpolation_b hs;
          pinf = eos_interpolation_pinfty hs;
          q = eos_interpolation_q hs;
          rho = density U;
          rho_e = internal_energy U;
          covolume = 1 - b * rho
      in positive_part (gamma - 1) * safe_division (rho_e - rho * q) covolume
         - gamma * pinf)"

definition surrogate_speed_of_sound :: "HyperbolicSystem \<Rightarrow> state_type \<Rightarrow> real \<Rightarrow> real" where
  "surrogate_speed_of_sound hs U gamma =
     (let b = eos_interpolation_b hs;
          pinf = eos_interpolation_pinfty hs;
          q = eos_interpolation_q hs;
          rho = density U;
          rho_e = internal_energy U;
          covolume = 1 - b * rho;
          radicand = (rho_e - rho * q - pinf * covolume) / (covolume * covolume * rho);
          radicand = radicand * (gamma * (gamma - 1))
      in sqrt (positive_part radicand))"

text \<open>
  \<open>is_admissible\<close>: \<open>compare_and_apply_mask<greater_than>(x, 0, 0, -1)\<close> yields \<open>0\<close> in
  a lane where \<open>x > 0\<close> and \<open>-1\<close> otherwise.  The function \<open>admissibility_test\<close> is the
  value of \<open>test\<close> in one lane.  For a scalar state the result is \<open>test == 0\<close>; for a
  vectorized state, given as the list of the states in its lanes, the comparison
  \<open>test == Number(0.)\<close> of two vectorized arrays holds when it holds in every lane.
\<close>

definition compare_and_apply_mask_gt :: "real \<Rightarrow> real \<Rightarrow> real \<Rightarrow> real \<Rightarrow> real" where
  "compare_and_apply_mask_gt left right true_value false_value =
     (if left > right then true_value else false_value)"

definition admissibility_test :: "HyperbolicSystem \<Rightarrow> state_type \<Rightarrow> real" where
  "admissibility_test hs U =
     (let b = eos_interpolation_b hs;
          pinf = eos_interpolation_pinfty hs;
          q = eos_interpolation_q hs;
          rho = density U;
          rho_e = internal_energy U;
          covolume = 1 - b * rho;
          shift = rho_e - rho * q - pinf * covolume
      in compare_and_apply_mask_gt rho 0 0 (- 1) + compare_and_apply_mask_gt shift 0 0 (- 1))"

definition is_admissible :: "HyperbolicSystem \<Rightarrow> state_type \<Rightarrow> bool" where
  "is_admissible hs U = (admissibility_test hs U = 0)"

definition is_admissible_simd :: "HyperbolicSystem \<Rightarrow> state_type list \<Rightarrow> bool" where
  "is_admissible_simd hs lanes = list_all (\<lambda>U. admissibility_test hs U = 0) lanes"

subsection \<open>State transformations\<close>

text \<open>
  The transformations between conserved and primitive states are modelled with the
  rounding of the floating point arithmetic: \<open>fl\<close> rounds the result of every arithmetic
  operation.  For the code \<open>fl\<close> is \<open>round_to_double\<close>, rounding to the nearest number with
  a significand of 53 bits, ties to even; every operation is rounded on its own, and
  overflow and underflow are not modelled.
  With the identity for \<open>fl\<close> the same operations are carried out in exact arithmetic.
  The norm and the scalar product of tensors accumulate their terms from the first
  component on.
\<close>

definition round_half_even :: "real \<Rightarrow> int" where
  "round_half_even q =
     (let n = \<lfloor>q\<rfloor>;
          r = q - of_int n
      in if r < 1 / 2 then n
         else if r > 1 / 2 then n + 1
         else if even n then n else n + 1)"

definition round_to_double :: "real \<Rightarrow> real" where
  "round_to_double x =
     (if x = 0 then 0
      else
        let e = \<lfloor>log 2 \<bar>x\<bar>\<rfloor>;
            ulp = 2 powi (e - 52)
        in sgn x * of_int (round_half_even (\<bar>x\<bar> / ulp)) * ulp)"

definition norm_square_fl :: "(real \<Rightarrow> real) \<Rightarrow> real list \<Rightarrow> real" where
  "norm_square_fl fl a = foldl (\<lambda>s x. fl (s + fl (x * x))) 0 a"

definition dot_fl :: "(real \<Rightarrow> real) \<Rightarrow> real list \<Rightarrow> real list \<Rightarrow> real" where
  "dot_fl fl a b = foldl (\<lambda>s (x, y). fl (s + fl (x * y))) 0 (zip a b)"

definition scale_fl :: "(real \<Rightarrow> real) \<Rightarrow> real \<Rightarrow> real list \<Rightarrow> real list" where
  "scale_fl fl c a = map (\<lambda>x. fl (c * x)) a"

definition internal_energy_fl :: "(real \<Rightarrow> real) \<Rightarrow> state_type \<Rightarrow> real" where
  "internal_energy_fl fl U =
     (let rho_inverse = fl (1 / density U);
          m = momentum U;
          E = total_energy U
      in fl (E - fl (fl (0.5 * norm_square_fl fl m) * rho_inverse)))"

definition from_primitive_state :: "(real \<Rightarrow> real) \<Rightarrow> state_type \<Rightarrow> state_type" where
  "from_primitive_state fl primitive_state =
     (let rho = density primitive_state;
          u = momentum primitive_state;
          e = total_energy primitive_state;
          state = primitive_state;
          state = state\<lparr>momentum := map (\<lambda>x. fl (x * rho)) (momentum state)\<rparr>;
          state = state\<lparr>total_energy :=
                    fl (fl (rho * e) + dot_fl fl (scale_fl fl (fl (0.5 * rho)) u) u)\<rparr>
      in state)"

definition to_primitive_state :: "(real \<Rightarrow> real) \<Rightarrow> state_type \<Rightarrow> state_type" where
  "to_primitive_state fl state =
     (let rho = density state;
          rho_inverse = fl (1 / rho);
          rho_e = internal_energy_fl fl state;
          primitive_state = state;
          primitive_state =
            primitive_state\<lparr>momentum :=
              map (\<lambda>x. fl (x * rho_inverse)) (momentum primitive_state)\<rparr>;
          primitive_state = primitive_state\<lparr>total_energy := fl (rho_e * rho_inverse)\<rparr>
      in primitive_state)"

subsection \<open>Exceptions\<close>

text \<open>
  \<open>AssertThrow\<close> raises in every build; \<open>Assert\<close> raises in debug builds only, so the
  functions that contain one take the build mode \<open>debug\<close> as their first argument.
\<close>

datatype error = ExcMessage string | ExcNotImplemented | ExcInternalError

subsection \<open>The precomputation loop\<close>

text \<open>
  The loop is modelled for a scalar \<open>Number\<close>, where \<open>get_stride_size<Number>\<close> is \<open>1\<close>
  and every index is one node.  The state vector is the pair of the vector \<open>U\<close> of
  states and the vector of precomputed values, both indexed by node; the caller
  provides vectors that hold the nodes from \<open>left\<close> to \<open>right\<close> and the columns of
  their rows.  The sparsity pattern gives the length of the row of a node and the
  column indices of the row, the first of which is the node itself.  The rows of a
  sweep are independent of each other and are visited in increasing order.
  \<open>dispatch_check\<close> is a hook for the caller and has no effect on the vectors.  The
  bounds are unsigned integers with \<open>left \<le> right\<close>; reading a vector beyond its end is
  undefined in the sources and unspecified here.
\<close>

record SparsityPatternSIMD =
  row_length :: "nat \<Rightarrow> nat"
  columns :: "nat \<Rightarrow> nat list"

type_synonym precomputed_type = "real \<times> real \<times> real \<times> real"

type_synonym StateVector = "state_type list \<times> precomputed_type list"

text \<open>
  Modelled from the spec: the vector interface \<open>pressure(p, rho, e)\<close> of the equation of
  state belongs to the class \<open>EquationOfState\<close>, which is not among the sources; "a single
  out-of-lane EOS call fills \<open>p\<close>" with the pressure of each pair of entries.
\<close>

definition pressure_vector :: "EquationOfState \<Rightarrow> real list \<Rightarrow> real list \<Rightarrow> real list" where
  "pressure_vector eos rho e = map2 (pressure eos) rho e"

text \<open>
  Each sweep is a loop over the nodes from \<open>left\<close> to \<open>right\<close>; the functions
  \<open>cycle_0_vector_row\<close>, \<open>cycle_0_scalar_row\<close> and \<open>cycle_1_row\<close> are the bodies of the
  three loops that write precomputed values, for one value of the loop index \<open>i\<close>.
\<close>

definition cycle_0_vector_row ::
  "HyperbolicSystem \<Rightarrow> SparsityPatternSIMD \<Rightarrow> state_type list \<Rightarrow> nat \<Rightarrow> real list
     \<Rightarrow> nat \<Rightarrow> precomputed_type list \<Rightarrow> precomputed_type list" where
  "cycle_0_vector_row hs sparsity_simd U offset p i precomputed =
     (let row_length = row_length sparsity_simd i in
      if row_length = 1 then precomputed
      else
        let U_i = U ! (offset + i);
            p_i = p ! i;
            gamma_i = surrogate_gamma hs U_i p_i;
            prec_i = (p_i, gamma_i, 0, 0)
        in precomputed[offset + i := prec_i])"

definition precomputation_cycle_0_vector ::
  "HyperbolicSystem \<Rightarrow> SparsityPatternSIMD \<Rightarrow> state_type list \<Rightarrow> nat \<Rightarrow> nat
     \<Rightarrow> precomputed_type list \<Rightarrow> precomputed_type list" where
  "precomputation_cycle_0_vector hs sparsity_simd U left right precomputed =
     (let eos = selected_equation_of_state hs;
          offset = left;
          size = right - left;
          rho = map (\<lambda>i. let U_i = U ! (offset + i) in density U_i) [0..<size];
          e = map (\<lambda>i. let U_i = U ! (offset + i);
                            rho_i = density U_i
                        in internal_energy U_i / rho_i) [0..<size];
          p = pressure_vector eos rho e
      in fold (cycle_0_vector_row hs sparsity_simd U offset p) [0..<size] precomputed)"

definition cycle_0_scalar_row ::
  "HyperbolicSystem \<Rightarrow> SparsityPatternSIMD \<Rightarrow> state_type list
     \<Rightarrow> nat \<Rightarrow> precomputed_type list \<Rightarrow> precomputed_type list" where
  "cycle_0_scalar_row hs sparsity_simd U i precomputed =
     (let row_length = row_length sparsity_simd i in
      if row_length = 1 then precomputed
      else
        let U_i = U ! i;
            rho_i = density U_i;
            e_i = internal_energy U_i / rho_i;
            p_i = eos_pressure hs rho_i e_i;
            gamma_i = surrogate_gamma hs U_i p_i;
            prec_i = (p_i, gamma_i, 0, 0)
        in precomputed[i := prec_i])"

definition precomputation_cycle_0_scalar ::
  "HyperbolicSystem \<Rightarrow> SparsityPatternSIMD \<Rightarrow> state_type list \<Rightarrow> nat \<Rightarrow> nat
     \<Rightarrow> precomputed_type list \<Rightarrow> precomputed_type list" where
  "precomputation_cycle_0_scalar hs sparsity_simd U left right precomputed =
     fold (cycle_0_scalar_row hs sparsity_simd U) [left..<right] precomputed"

definition cycle_1_row ::
  "HyperbolicSystem \<Rightarrow> SparsityPatternSIMD \<Rightarrow> state_type list
     \<Rightarrow> nat \<Rightarrow> precomputed_type list \<Rightarrow> precomputed_type list" where
  "cycle_1_row hs sparsity_simd U i precomputed =
     (let row_length = row_length sparsity_simd i in
      if row_length = 1 then precomputed
      else
        let U_i = U ! i;
            prec_i = precomputed ! i;
            (p_i, gamma_min_i, s_i, eta_i) = prec_i;
            js = columns sparsity_simd i;
            gamma_min_i =
              fold (\<lambda>col_idx gamma_min_i.
                      let U_j = U ! (js ! col_idx);
                          prec_j = precomputed ! (js ! col_idx);
                          (p_j, gamma_min_j, s_j, eta_j) = prec_j;
                          gamma_j = surrogate_gamma hs U_j p_j
                      in min gamma_min_i gamma_j)
                [1..<row_length] gamma_min_i;
            s_i = surrogate_specific_entropy hs U_i gamma_min_i;
            eta_i = surrogate_harten_entropy hs U_i gamma_min_i
        in precomputed[i := (p_i, gamma_min_i, s_i, eta_i)])"

definition precomputation_cycle_1 ::
  "HyperbolicSystem \<Rightarrow> SparsityPatternSIMD \<Rightarrow> state_type list \<Rightarrow> nat \<Rightarrow> nat
     \<Rightarrow> precomputed_type list \<Rightarrow> precomputed_type list" where
  "precomputation_cycle_1 hs sparsity_simd U left right precomputed =
     fold (cycle_1_row hs sparsity_simd U) [left..<right] precomputed"

definition precomputation_loop ::
  "bool \<Rightarrow> HyperbolicSystem \<Rightarrow> nat \<Rightarrow> SparsityPatternSIMD \<Rightarrow> StateVector \<Rightarrow> nat \<Rightarrow> nat
     \<Rightarrow> error + StateVector" where
  "precomputation_loop debug hs cycle sparsity_simd state_vector left right =
     (if debug \<and> \<not> (cycle = 0 \<or> cycle = 1) then Inl ExcInternalError
      else
        let U = fst state_vector;
            precomputed = snd state_vector;
            eos = selected_equation_of_state hs;
            precomputed =
              (if cycle = 0 then
                 (if prefer_vector_interface eos
                  then precomputation_cycle_0_vector hs sparsity_simd U left right precomputed
                  else precomputation_cycle_0_scalar hs sparsity_simd U left right precomputed)
               else precomputed);
            precomputed =
              (if cycle = 1
               then precomputation_cycle_1 hs sparsity_simd U left right precomputed
               else precomputed)
        in Inr (U, precomputed))"

subsection \<open>Boundary conditions\<close>

text \<open>
  The enumerators of \<open>Boundary\<close> that \<open>apply_boundary_conditions\<close> tests for; every
  other boundary id is \<open>other_id\<close>.
\<close>

datatype Boundary = dirichlet | dirichlet_momentum | slip | no_slip | dynamic | other_id nat

definition tensor_div :: "real list \<Rightarrow> real \<Rightarrow> real list" where
  \<comment> \<open>\<open>operator/\<close> of a rank-one tensor and a scalar\<close>
  "tensor_div a c = map (\<lambda>x. x / c) a"

definition prescribe_riemann_characteristic ::
  "bool \<Rightarrow> HyperbolicSystem \<Rightarrow> nat \<Rightarrow> state_type \<Rightarrow> real \<Rightarrow> state_type \<Rightarrow> real \<Rightarrow> real list
     \<Rightarrow> error + state_type" where
  "prescribe_riemann_characteristic debug hs component U p U_bar p_bar normal =
     (let b = eos_interpolation_b hs;
          pinf = eos_interpolation_pinfty hs;
          q = eos_interpolation_q hs;
          m = momentum U;
          rho = density U;
          vn = dot m normal / rho;
          gamma = surrogate_gamma hs U p;
          a = surrogate_speed_of_sound hs U gamma;
          covolume = 1 - b * rho;
          m_bar = momentum U_bar;
          rho_bar = density U_bar;
          vn_bar = dot m_bar normal / rho_bar;
          gamma_bar = surrogate_gamma hs U_bar p_bar;
          a_bar = surrogate_speed_of_sound hs U_bar gamma_bar;
          covolume_bar = 1 - b * rho_bar;
          R_1 = (if component = 1 then vn_bar - 2 * a_bar / (gamma_bar - 1) * covolume_bar
                 else vn - 2 * a / (gamma - 1) * covolume);
          R_2 = (if component = 2 then vn_bar + 2 * a_bar / (gamma_bar - 1) * covolume_bar
                 else vn + 2 * a / (gamma - 1) * covolume)
      in if debug \<and> \<not> R_2 \<ge> R_1
         then Inl (ExcMessage (''Encountered R_2 < R_1 in dynamic boundary value '' @
                               ''enforcement. This implies that the interpolation '' @
                               ''with Riemann characteristics failed.''))
         else
           let vperp = tensor_sub (tensor_div m rho) (scale vn normal);
               S = (p + pinf) * pow (1 / rho - b) gamma;
               vn_new = 0.5 * (R_1 + R_2);
               a_new_square = fixed_power_2 ((gamma - 1) * (R_2 - R_1) / (4 * covolume));
               term = pow (a_new_square / (gamma * S)) (1 / (gamma - 1));
               term = (if b \<noteq> 0 then term * pow covolume (2 / (gamma - 1)) else term);
               rho_new = term / (1 + b * term);
               covolume_new = 1 - b * rho_new;
               p_new = a_new_square / gamma * rho_new * covolume_new - pinf;
               rho_e_new = rho_new * q + (p_new + gamma * pinf) * covolume_new / (gamma - 1)
           in Inr \<lparr>density = rho_new,
                   momentum = scale rho_new (tensor_add (scale vn_new normal) vperp),
                   total_energy =
                     rho_e_new + 0.5 * rho_new * (vn_new * vn_new + norm_square vperp)\<rparr>)"

text \<open>
  The dynamic boundary condition chooses its branch by comparing the quotient
  \<open>vn = m * normal / rho\<close> with the sound speed.  For a density that is not zero the
  quotient is a number.  For a density that is zero the floating point division gives
  an infinity with the sign of the numerator, or, for a numerator that is zero as
  well, not a number, which every comparison answers with false; the sound speed is
  zero there, in the code (\<open>positive_part\<close> maps a negative infinity and not a number to
  zero) and in the model.  The model has one zero: a zero density is taken to be
  positive.
\<close>

datatype ieee_quotient = Quotient real | PlusInfinity | MinusInfinity | NotANumber

definition ieee_divide :: "real \<Rightarrow> real \<Rightarrow> ieee_quotient" where
  "ieee_divide x y =
     (if y \<noteq> 0 then Quotient (x / y)
      else if x > 0 then PlusInfinity
      else if x < 0 then MinusInfinity
      else NotANumber)"

definition ieee_less :: "ieee_quotient \<Rightarrow> real \<Rightarrow> bool" where
  "ieee_less x r =
     (case x of Quotient v \<Rightarrow> v < r | PlusInfinity \<Rightarrow> False
      | MinusInfinity \<Rightarrow> True | NotANumber \<Rightarrow> False)"

definition ieee_less_eq :: "ieee_quotient \<Rightarrow> real \<Rightarrow> bool" where
  "ieee_less_eq x r =
     (case x of Quotient v \<Rightarrow> v \<le> r | PlusInfinity \<Rightarrow> False
      | MinusInfinity \<Rightarrow> True | NotANumber \<Rightarrow> False)"

definition ieee_greater :: "ieee_quotient \<Rightarrow> real \<Rightarrow> bool" where
  "ieee_greater x r =
     (case x of Quotient v \<Rightarrow> v > r | PlusInfinity \<Rightarrow> True
      | MinusInfinity \<Rightarrow> False | NotANumber \<Rightarrow> False)"

definition ieee_greater_eq :: "ieee_quotient \<Rightarrow> real \<Rightarrow> bool" where
  "ieee_greater_eq x r =
     (case x of Quotient v \<Rightarrow> v \<ge> r | PlusInfinity \<Rightarrow> True
      | MinusInfinity \<Rightarrow> False | NotANumber \<Rightarrow> False)"

text \<open>
  \<open>get_dirichlet_data\<close> is a callable that returns the prescribed Dirichlet state; the
  model passes the state it returns.  The three tests of the dynamic branch are three
  separate \<open>if\<close> statements, executed one after the other on the running \<open>result\<close>.
\<close>

definition apply_boundary_conditions ::
  "bool \<Rightarrow> HyperbolicSystem \<Rightarrow> Boundary \<Rightarrow> state_type \<Rightarrow> real list \<Rightarrow> state_type
     \<Rightarrow> error + state_type" where
  "apply_boundary_conditions debug hs boundary_id U normal get_dirichlet_data =
     (let result = U in
      if boundary_id = dirichlet then Inr get_dirichlet_data
      else if boundary_id = dirichlet_momentum then
        (let m_dirichlet = momentum get_dirichlet_data
         in Inr (result\<lparr>momentum := m_dirichlet\<rparr>))
      else if boundary_id = slip then
        (let m = momentum U;
             m = tensor_sub m (scale (1 * dot m normal) normal)
         in Inr (result\<lparr>momentum := m\<rparr>))
      else if boundary_id = no_slip then
        Inr (result\<lparr>momentum := map (\<lambda>_. 0) (momentum result)\<rparr>)
      else if boundary_id = dynamic then
        (let m = momentum U;
             rho = density U;
             rho_e = internal_energy U;
             p = eos_pressure hs rho (rho_e / rho);
             gamma = surrogate_gamma hs U p;
             a = surrogate_speed_of_sound hs U gamma;
             vn = ieee_divide (dot m normal) rho;
             result = (if ieee_less vn (- a) then get_dirichlet_data else result);
             result =
               (if ieee_greater_eq vn (- a) \<and> ieee_less_eq vn 0 then
                  (let U_dirichlet = get_dirichlet_data;
                       rho_dirichlet = density U_dirichlet;
                       rho_e_dirichlet = internal_energy U_dirichlet;
                       p_dirichlet = eos_pressure hs rho_dirichlet (rho_e_dirichlet / rho_dirichlet)
                   in prescribe_riemann_characteristic debug hs 2 U_dirichlet p_dirichlet U p normal)
                else Inr result)
         in case result of
              Inl e \<Rightarrow> Inl e
            | Inr result \<Rightarrow>
                (if ieee_greater vn 0 \<and> ieee_less_eq vn a then
                   (let U_dirichlet = get_dirichlet_data;
                        rho_dirichlet = density U_dirichlet;
                        rho_e_dirichlet = internal_energy U_dirichlet;
                        p_dirichlet = eos_pressure hs rho_dirichlet (rho_e_dirichlet / rho_dirichlet)
                    in prescribe_riemann_characteristic debug hs 1 U p U_dirichlet p_dirichlet normal)
                 else Inr result))
      else Inl ExcNotImplemented)"




subsection \<open>Construction of the hyperbolic system\<close>

text \<open>
  The list of equations of state is filled by the equation of state library, which is
  not part of the model: it is an argument.  \<open>populate_functions\<close> is the callable of
  that name in the constructor; the constructor runs it once with the default name
  and connects it to the signal that fires after parameters have been read
  (\<open>parse_parameters_call_back\<close>).  The loop with \<open>break\<close> selects the first entry of
  the list with the configured name.
\<close>

definition populate_functions :: "HyperbolicSystem \<Rightarrow> error + HyperbolicSystem" where
  "populate_functions hs =
     (case find (\<lambda>it. name it = equation_of_state hs) (equation_of_state_list hs) of
        Some it \<Rightarrow>
          Inr (hs\<lparr>selected_equation_of_state := it,
                  problem_name := ''Compressible Euler equations ('' @ name it @ '' EOS)''\<rparr>)
      | None \<Rightarrow>
          Inl (ExcMessage (''Could not find an equation of state description with name '' @
                           [CHR 0x22] @ equation_of_state hs @ [CHR 0x22])))"

definition HyperbolicSystem_constructor ::
  "EquationOfState list \<Rightarrow> EquationOfState \<Rightarrow> error + HyperbolicSystem" where
  \<comment> \<open>the second argument stands for the null \<open>shared_ptr\<close> before initialization\<close>
  "HyperbolicSystem_constructor eos_list null_eos =
     populate_functions
       \<lparr>equation_of_state = ''polytropic gas'',
        reference_density = 1,
        vacuum_state_relaxation_small = 100,
        vacuum_state_relaxation_large = 10000,
        compute_strict_bounds = True,
        equation_of_state_list = eos_list,
        selected_equation_of_state = null_eos,
        problem_name = ''Compressible Euler equations (arbitrary EOS)''\<rparr>"

text \<open>
  The Van der Waals equation of state with its pressure oracle.  The class sets the
  interpolation parameter \<open>b\<close> to its covolume when parameters are read and leaves the
  other two interpolation parameters and the flag \<open>prefer_vector_interface\<close> as the base
  class initialises them.

  Modelled from the spec: the base class \<open>EquationOfState\<close> is not among the sources;
  the reference pressure \<open>p_infty\<close>, which the class leaves unset, and \<open>q\<close> are taken to be
  zero and the flag to be false.
\<close>

definition VanDerWaals :: "real \<Rightarrow> real \<Rightarrow> real \<Rightarrow> EquationOfState" where
  "VanDerWaals gamma a b =
     \<lparr>name = ''van der waals'',
      pressure = (\<lambda>rho e.
        let intermolecular = a * rho * rho;
            numerator = rho * e + intermolecular;
            covolume = 1 - b * rho
        in (gamma - 1) * numerator / covolume - intermolecular),
      prefer_vector_interface = False,
      interpolation_b = b,
      interpolation_pinfty = 0,
      interpolation_q = 0\<rparr>"

subsection \<open>A configured system\<close>

text \<open>
  The hyperbolic system that results from the parameter "equation of state = van der
  waals" with the default parameters of that equation of state: \<open>gamma = 7/5\<close> and
  \<open>a = b = 0\<close>.
\<close>

definition van_der_waals_system :: HyperbolicSystem where
  "van_der_waals_system =
     \<lparr>equation_of_state = ''van der waals'',
      reference_density = 1,
      vacuum_state_relaxation_small = 100,
      vacuum_state_relaxation_large = 10000,
      compute_strict_bounds = True,
      equation_of_state_list = [VanDerWaals (7 / 5) 0 0],
      selected_equation_of_state = VanDerWaals (7 / 5) 0 0,
      problem_name = ''Compressible Euler equations (van der waals EOS)''\<rparr>"

text \<open>
  The same system with the Van der Waals constant \<open>a = 1\<close>, for which the pressure
  oracle returns negative pressures.
\<close>

definition van_der_waals_attraction_system :: HyperbolicSystem where
  "van_der_waals_attraction_system =
     van_der_waals_system\<lparr>selected_equation_of_state := VanDerWaals (7 / 5) 1 0\<rparr>"

subsection \<open>The one-ring of a node\<close>

text \<open>
  The one-ring of a node is the node itself together with the columns of its row that
  the inner loop of the second precomputation cycle visits.
\<close>

definition one_ring :: "SparsityPatternSIMD \<Rightarrow> nat \<Rightarrow> nat set" where
  "one_ring sparsity_simd i =
     insert i ((\<lambda>col_idx. columns sparsity_simd i ! col_idx) ` {1..<row_length sparsity_simd i})"

text \<open>
  The surrogate gamma of node \<open>i\<close> as the first precomputation cycle computes it from
  the state of the node and the pressure oracle.
\<close>

definition nodal_pressure :: "HyperbolicSystem \<Rightarrow> state_type list \<Rightarrow> nat \<Rightarrow> real" where
  "nodal_pressure hs U i =
     eos_pressure hs (density (U ! i)) (internal_energy (U ! i) / density (U ! i))"

definition nodal_gamma :: "HyperbolicSystem \<Rightarrow> state_type list \<Rightarrow> nat \<Rightarrow> real" where
  "nodal_gamma hs U i = surrogate_gamma hs (U ! i) (nodal_pressure hs U i)"

subsection \<open>A small mesh\<close>

text \<open>
  Three nodes with two sparsity patterns: in the first node \<open>1\<close> is constrained and the
  nodes \<open>0\<close> and \<open>2\<close> are neighbours, in the second node \<open>0\<close> is constrained and the
  nodes \<open>1\<close> and \<open>2\<close> are neighbours.
\<close>

definition constrained_sparsity :: SparsityPatternSIMD where
  "constrained_sparsity =
     \<lparr>row_length = (\<lambda>i. if i = 1 then 1 else 2),
      columns = (\<lambda>i. if i = 0 then [0, 2] else if i = 1 then [1] else [2, 0])\<rparr>"

definition first_constrained_sparsity :: SparsityPatternSIMD where
  \<comment> \<open>node \<open>0\<close> is constrained, the nodes \<open>1\<close> and \<open>2\<close> are neighbours of each other\<close>
  "first_constrained_sparsity =
     \<lparr>row_length = (\<lambda>i. if i = 0 then 1 else 2),
      columns = (\<lambda>i. if i = 0 then [0] else if i = 1 then [1, 2] else [2, 1])\<rparr>"

definition chain_states :: "state_type list" where
  "chain_states =
     [\<lparr>density = 1, momentum = [0], total_energy = 3\<rparr>,
      \<lparr>density = 1, momentum = [0], total_energy = 1\<rparr>,
      \<lparr>density = 2, momentum = [0], total_energy = 10\<rparr>]"

text \<open>
  The Van der Waals system above with an equation of state that prefers the vector
  interface, as a tabulated equation of state does.
\<close>

definition vector_interface_system :: HyperbolicSystem where
  "vector_interface_system =
     van_der_waals_system
       \<lparr>selected_equation_of_state :=
          (VanDerWaals (7 / 5) 0 0)\<lparr>prefer_vector_interface := True\<rparr>\<rparr>"

section \<open>Equation dispatch\<close>

definition dave :: string where
  "dave = [CHR 0x0A] @ ''Dave, this conversation can serve no purpose anymore. Goodbye.'' @
          [CHR 0x0A, CHR 0x0A]"

definition raquo :: string where
  \<comment> \<open>the right-pointing guillemet in UTF-8\<close>
  "raquo = [CHR 0xC2, CHR 0xBB]"

definition laquo :: string where
  \<comment> \<open>the left-pointing guillemet in UTF-8\<close>
  "laquo = [CHR 0xC2, CHR 0xAB]"

function to_string_nat :: "nat \<Rightarrow> string" where
  "to_string_nat n =
     (if n < 10 then [char_of (48 + n)]
      else to_string_nat (n div 10) @ [char_of (48 + n mod 10)])"
  by pat_completeness auto
termination
  by (relation "measure id") auto

declare to_string_nat.simps [simp del]

definition to_string :: "int \<Rightarrow> string" where
  \<comment> \<open>\<open>std::to_string\<close> of an \<open>int\<close>\<close>
  "to_string i = (if i < 0 then CHR ''-'' # to_string_nat (nat (- i)) else to_string_nat (nat i))"

record EquationDispatch =
  dimension :: int
  equation :: string
  time_loop_executed :: bool

definition EquationDispatch_constructor :: EquationDispatch where
  "EquationDispatch_constructor = \<lparr>dimension = 0, equation = [], time_loop_executed = False\<rparr>"

text \<open>
  A slot of the dispatch signal receives the dimension, the equation name and the
  flag \<open>time_loop_executed\<close>, which it may set; the parameter file and the communicator
  are passed through to the time loop and play no role here.  \<open>Signals\<close> holds the
  slots of the two signals in the order of their connection; the static pointer
  \<open>signals\<close> is an option, \<open>None\<close> for the null pointer.
\<close>

type_synonym dispatch_slot = "int \<Rightarrow> string \<Rightarrow> bool \<Rightarrow> error + bool"

record Signals =
  create_parameter_files :: "string list"
  dispatch_signal :: "dispatch_slot list"

definition register_create_parameter_files :: "string \<Rightarrow> Signals option \<Rightarrow> Signals option" where
  "register_create_parameter_files callable signals =
     (let s = (case signals of
                 None \<Rightarrow> \<lparr>create_parameter_files = [], dispatch_signal = []\<rparr>
               | Some s \<Rightarrow> s)
      in Some (s\<lparr>create_parameter_files := create_parameter_files s @ [callable]\<rparr>))"

definition register_dispatch :: "dispatch_slot \<Rightarrow> Signals option \<Rightarrow> Signals option" where
  "register_dispatch callable signals =
     (let s = (case signals of
                 None \<Rightarrow> \<lparr>create_parameter_files = [], dispatch_signal = []\<rparr>
               | Some s \<Rightarrow> s)
      in Some (s\<lparr>dispatch_signal := dispatch_signal s @ [callable]\<rparr>))"

text \<open>
  The callable that \<open>Dispatch<Description, Number>::Dispatch(name)\<close> registers.  Creating
  and running the time loop is outside the model and taken to return.
\<close>

definition Dispatch_callable :: "string \<Rightarrow> dispatch_slot" where
  "Dispatch_callable name' dimension' equation' time_loop_executed' =
     (if equation' \<noteq> name' then Inr time_loop_executed'
      else if \<not> time_loop_executed' = False then
        Inl (ExcMessage (dave @ ''Trying to execute more than one TimeLoop object '' @
                         ''with the given equation parameter '' @ raquo @ equation' @ laquo))
      else if dimension' = 1 then Inr True
      else if dimension' = 2 then Inr True
      else if dimension' = 3 then Inr True
      else Inr time_loop_executed')"

definition Dispatch :: "string \<Rightarrow> Signals option \<Rightarrow> Signals option" where
  "Dispatch name' signals =
     register_dispatch (Dispatch_callable name') (register_create_parameter_files name' signals)"

text \<open>Emitting the signal calls the slots in order; an exception ends the emission.\<close>

fun emit_dispatch :: "dispatch_slot list \<Rightarrow> int \<Rightarrow> string \<Rightarrow> bool \<Rightarrow> error + bool" where
  "emit_dispatch [] d e executed = Inr executed"
| "emit_dispatch (slot # slots) d e executed =
     (case slot d e executed of
        Inl err \<Rightarrow> Inl err
      | Inr executed' \<Rightarrow> emit_dispatch slots d e executed')"

text \<open>
  The entries of the parameter file that concern the dispatcher.  \<open>parse_input\<close> is called
  with "skip undefined" set and without asserting that entries are present: an entry
  that the file does not set keeps its value.
\<close>

record ParameterFile =
  set_dimension :: "int option"
  set_equation :: "string option"

definition parse_input :: "ParameterFile \<Rightarrow> EquationDispatch \<Rightarrow> EquationDispatch" where
  "parse_input parameter_file ed =
     ed\<lparr>dimension := (case set_dimension parameter_file of None \<Rightarrow> dimension ed | Some d \<Rightarrow> d),
        equation := (case set_equation parameter_file of None \<Rightarrow> equation ed | Some e \<Rightarrow> e)\<rparr>"

definition dispatch ::
  "EquationDispatch \<Rightarrow> ParameterFile \<Rightarrow> Signals option \<Rightarrow> error + EquationDispatch" where
  "dispatch this parameter_file signals =
     (let this = parse_input parameter_file this in
      if \<not> (dimension this \<ge> 1 \<and> dimension this \<le> 3) then
        Inl (ExcMessage (dave @ ''The dimension parameter needs to be '' @
                         ''either 1, 2, or 3, but we encountered '' @ raquo @
                         to_string (dimension this) @ laquo @ [CHR 0x0A]))
      else
        case signals of
          None \<Rightarrow>
            Inl (ExcMessage (dave @ ''No equation has been registered. Consequently, '' @
                             ''there is nothing for us to do.'' @ [CHR 0x0A]))
        | Some s \<Rightarrow>
            (case emit_dispatch (dispatch_signal s) (dimension this) (equation this)
                    (time_loop_executed this) of
               Inl err \<Rightarrow> Inl err
             | Inr executed \<Rightarrow>
                 (let this = this\<lparr>time_loop_executed := executed\<rparr> in
                  if \<not> time_loop_executed this = True then
                    Inl (ExcMessage (dave @ ''No equation was dispatched '' @
                                     ''with the chosen equation parameter '' @ raquo @
                                     equation this @ laquo @ ''.'' @ [CHR 0x0A]))
                  else Inr this)))"

section \<open>Initial values\<close>

text \<open>
  A point and a direction in \<open>dim\<close> space dimensions are lists of \<open>dim\<close> coordinates;
  \<open>dim\<close> is a template parameter, and an argument here.
\<close>

definition affine_transform :: "nat \<Rightarrow> real list \<Rightarrow> real list \<Rightarrow> real list \<Rightarrow> real list" where
  "affine_transform dim' initial_direction initial_position x =
     (let direction = tensor_sub x initial_position;
          direction =
            (if dim' = 3 then
               (let n_x = initial_direction ! 0;
                    n_z = initial_direction ! 2;
                    norm = sqrt (n_x * n_x + n_z * n_z);
                    n_x = n_x / norm;
                    n_z = n_z / norm;
                    new_direction = direction;
                    new_direction =
                      (if norm > 1 / 10 ^ 14 then
                         (new_direction[0 := n_x * direction ! 0 + n_z * direction ! 2])
                           [2 := - n_z * direction ! 0 + n_x * direction ! 2]
                       else new_direction)
                in new_direction)
             else direction);
          direction =
            (if dim' \<ge> 2 then
               (let n_x = initial_direction ! 0;
                    n_y = initial_direction ! 1;
                    norm = sqrt (n_x * n_x + n_y * n_y);
                    n_x = n_x / norm;
                    n_y = n_y / norm;
                    new_direction = direction;
                    new_direction =
                      (if norm > 1 / 10 ^ 14 then
                         (new_direction[0 := n_x * direction ! 0 + n_y * direction ! 1])
                           [1 := - n_y * direction ! 0 + n_x * direction ! 1]
                       else new_direction)
                in new_direction)
             else direction)
      in direction)"

definition affine_transform_vector :: "nat \<Rightarrow> real list \<Rightarrow> real list \<Rightarrow> real list" where
  "affine_transform_vector dim' initial_direction direction =
     (let direction =
            (if dim' \<ge> 2 then
               (let n_x = initial_direction ! 0;
                    n_y = initial_direction ! 1;
                    norm = sqrt (n_x * n_x + n_y * n_y);
                    n_x = n_x / norm;
                    n_y = n_y / norm;
                    new_direction = direction;
                    new_direction =
                      (if norm > 1 / 10 ^ 14 then
                         (new_direction[0 := n_x * direction ! 0 - n_y * direction ! 1])
                           [1 := n_y * direction ! 0 + n_x * direction ! 1]
                       else new_direction)
                in new_direction)
             else direction);
          direction =
            (if dim' = 3 then
               (let n_x = initial_direction ! 0;
                    n_z = initial_direction ! 2;
                    norm = sqrt (n_x * n_x + n_z * n_z);
                    n_x = n_x / norm;
                    n_z = n_z / norm;
                    new_direction = direction;
                    new_direction =
                      (if norm > 1 / 10 ^ 14 then
                         (new_direction[0 := n_x * direction ! 0 - n_z * direction ! 2])
                           [2 := n_z * direction ! 0 + n_x * direction ! 2]
                       else new_direction)
                in new_direction)
             else direction)
      in direction)"

definition apply_galilei_transform ::
  "state_type \<Rightarrow> (real list \<Rightarrow> real list) \<Rightarrow> state_type" where
  "apply_galilei_transform state lambda =
     (let result = state;
          M = lambda (momentum state)
      in result\<lparr>momentum := M\<rparr>)"

text \<open>
  An entry of the initial state library: its name and its two oracles.
\<close>

record InitialState =
  initial_state_name :: string
  compute :: "real list \<Rightarrow> real \<Rightarrow> state_type"
  initial_precomputations :: "real list \<Rightarrow> real list"

record InitialValues =
  configuration :: string
  initial_direction :: "real list"
  initial_position :: "real list"
  perturbation :: real
  initial_state_list :: "InitialState list"

text \<open>
  The random engine is the sequence of the numbers that the bound distribution will
  return, each in the interval from \<open>-1\<close> to \<open>1\<close>; \<open>draw\<close> takes the first and leaves the
  rest.  A function object that may draw takes the engine and returns it.
\<close>

type_synonym generator = "nat \<Rightarrow> real"

definition draw :: "generator \<Rightarrow> real \<times> generator" where
  "draw g = (g 0, \<lambda>n. g (Suc n))"

type_synonym initial_state_function =
  "real list \<Rightarrow> real \<Rightarrow> generator \<Rightarrow> state_type \<times> generator"

text \<open>
  The components \<open>state[0], ..., state[problem_dimension - 1]\<close> of a state, and the
  state with given components.
\<close>

definition state_components :: "state_type \<Rightarrow> real list" where
  "state_components state = density state # momentum state @ [total_energy state]"

definition state_of_components :: "real list \<Rightarrow> state_type" where
  "state_of_components cs =
     \<lparr>density = hd cs, momentum = butlast (tl cs), total_energy = last cs\<rparr>"

text \<open>The loop \<open>for (i = 0; i < problem_dimension; ++i) state[i] *= 1 + perturbation * draw()\<close>.\<close>

fun perturb_components :: "real \<Rightarrow> real list \<Rightarrow> generator \<Rightarrow> real list \<times> generator" where
  "perturb_components perturbation' [] g = ([], g)"
| "perturb_components perturbation' (c # cs) g =
     (let (xi, g) = draw g;
          c = c * (1 + perturbation' * xi);
          (cs, g) = perturb_components perturbation' cs g
      in (c # cs, g))"

definition unperturbed_initial_state ::
  "nat \<Rightarrow> InitialValues \<Rightarrow> InitialState \<Rightarrow> initial_state_function" where
  \<comment> \<open>the first function object that the callback assigns to \<open>initial_state_\<close>\<close>
  "unperturbed_initial_state dim' this it point t g =
     (let transformed_point =
            affine_transform dim' (initial_direction this) (initial_position this) point;
          state = compute it transformed_point t;
          state = apply_galilei_transform state
                    (\<lambda>momentum. affine_transform_vector dim' (initial_direction this) momentum)
      in (state, g))"

definition perturbed_initial_state ::
  "initial_state_function \<Rightarrow> real \<Rightarrow> initial_state_function" where
  \<comment> \<open>the function object that wraps \<open>old_state\<close> when a perturbation is set\<close>
  "perturbed_initial_state old_state perturbation' point t g =
     (let (state, g) = old_state point t g in
      if t > 0 then (state, g)
      else
        (let (cs, g) = perturb_components perturbation' (state_components state) g
         in (state_of_components cs, g)))"

definition parse_parameters_callback ::
  "nat \<Rightarrow> InitialValues
     \<Rightarrow> error + InitialValues \<times> initial_state_function \<times> (real list \<Rightarrow> real list)" where
  "parse_parameters_callback dim' this =
     (if \<not> sqrt (norm_square (initial_direction this)) \<noteq> 0 then
        Inl (ExcMessage ''Initial direction is set to the zero vector.'')
      else
        let this = this\<lparr>initial_direction :=
                     tensor_div (initial_direction this)
                       (sqrt (norm_square (initial_direction this)))\<rparr>
        in case find (\<lambda>it. initial_state_name it = configuration this)
                  (initial_state_list this) of
             None \<Rightarrow>
               Inl (ExcMessage (''Could not find an initial state description with name '' @
                                [CHR 0x22] @ configuration this @ [CHR 0x22]))
           | Some it \<Rightarrow>
               (let initial_state = unperturbed_initial_state dim' this it;
                    initial_precomputed =
                      (\<lambda>point. initial_precomputations it
                         (affine_transform dim' (initial_direction this)
                            (initial_position this) point));
                    initial_state =
                      (if perturbation this \<noteq> 0
                       then perturbed_initial_state initial_state (perturbation this)
                       else initial_state)
                in Inr (this, initial_state, initial_precomputed)))"

subsection \<open>A configured initial state\<close>

text \<open>
  An initial state library with the single entry "uniform", a constant state, in one
  space dimension, and initial values configured with it and a perturbation of \<open>1/10\<close>.
\<close>

definition uniform_initial_state :: InitialState where
  "uniform_initial_state =
     \<lparr>initial_state_name = ''uniform'',
      compute = (\<lambda>point t. \<lparr>density = 1, momentum = [0], total_energy = 1\<rparr>),
      initial_precomputations = (\<lambda>point. [])\<rparr>"

definition perturbed_uniform_initial_values :: InitialValues where
  "perturbed_uniform_initial_values =
     \<lparr>configuration = ''uniform'',
      initial_direction = [1],
      initial_position = [1],
      perturbation = 1 / 10,
      initial_state_list = [uniform_initial_state]\<rparr>"

section \<open>Properties\<close>

subsection \<open>Auxiliary facts\<close>

lemma numeric_limits_min_pos: "0 < numeric_limits_min"
  by (simp add: numeric_limits_min_def)

lemma numeric_limits_min_le_one: "numeric_limits_min \<le> 1"
  by (simp add: numeric_limits_min_def)

lemma safe_division_nonneg: "0 \<le> safe_division n d"
proof -
  have "0 < max d numeric_limits_min"
    using numeric_limits_min_pos by (simp add: less_max_iff_disj)
  then show ?thesis
    by (simp add: safe_division_def)
qed


lemma vdw_params [simp]:
  "eos_interpolation_b van_der_waals_system = 0"
  "eos_interpolation_pinfty van_der_waals_system = 0"
  "eos_interpolation_q van_der_waals_system = 0"
  by (simp_all add: eos_interpolation_b_def eos_interpolation_pinfty_def
      eos_interpolation_q_def van_der_waals_system_def VanDerWaals_def)

lemma foldl_add_squares:
  fixes s :: real
  shows "foldl (\<lambda>s x. s + x * x) s a = s + sum_list (map (\<lambda>x. x * x) a)"
  by (induction a arbitrary: s) simp_all

lemma norm_square_fl_exact: "norm_square_fl (\<lambda>x. x) a = norm_square a"
  by (simp add: norm_square_fl_def norm_square_def foldl_add_squares)

lemma foldl_add_products:
  fixes s :: real
  shows "foldl (\<lambda>s (x, y). s + x * y) s ps = s + sum_list (map (\<lambda>(x, y). x * y) ps)"
  by (induction ps arbitrary: s) (simp_all add: split_beta)

lemma dot_fl_exact: "dot_fl (\<lambda>x. x) a b = dot a b"
  by (simp add: dot_fl_def dot_def foldl_add_products)

lemma scale_fl_exact: "scale_fl (\<lambda>x. x) c a = scale c a"
  by (simp add: scale_fl_def scale_def)

lemma internal_energy_fl_exact: "internal_energy_fl (\<lambda>x. x) U = internal_energy U"
  by (simp add: internal_energy_fl_def internal_energy_def norm_square_fl_exact Let_def)

lemma map_mult_inverse_cancel:
  fixes rho :: real
  assumes "rho \<noteq> 0"
  shows "map (\<lambda>x. x * rho) (map (\<lambda>x. x * (1 / rho)) m) = m"
  using assms by (induction m) auto

lemma dot_scale_left: "dot (scale c u) u = c * norm_square u"
  by (induction u) (auto simp: dot_def scale_def norm_square_def algebra_simps)

lemma norm_square_map_mult: "norm_square (map (\<lambda>x. x * c) m) = c * c * norm_square m"
  by (induction m) (auto simp: norm_square_def algebra_simps)

lemma round_trip_exact:
  assumes "density U \<noteq> 0"
  shows "from_primitive_state (\<lambda>x. x) (to_primitive_state (\<lambda>x. x) U) = U"
proof -
  let ?rho = "density U"
  have m: "map (\<lambda>x. x * ?rho) (map (\<lambda>x. x * (1 / ?rho)) (momentum U)) = momentum U"
    using assms by (rule map_mult_inverse_cancel)
  have ns: "norm_square (map (\<lambda>x. x * (1 / ?rho)) (momentum U))
              = (1 / ?rho) * (1 / ?rho) * norm_square (momentum U)"
    by (rule norm_square_map_mult)
  have e: "?rho * (internal_energy U * (1 / ?rho))
           + dot (scale (0.5 * ?rho) (map (\<lambda>x. x * (1 / ?rho)) (momentum U)))
                 (map (\<lambda>x. x * (1 / ?rho)) (momentum U)) = total_energy U"
    unfolding dot_scale_left ns internal_energy_def Let_def
    using assms by (simp add: field_simps)
  show ?thesis
    using m e
    by (simp add: from_primitive_state_def to_primitive_state_def Let_def dot_fl_exact
        scale_fl_exact internal_energy_fl_exact)
qed

lemma round_to_double_eval:
  assumes lo: "2 powi e \<le> \<bar>x\<bar>" and hi: "\<bar>x\<bar> < 2 powi (e + 1)"
  shows "round_to_double x
           = sgn x * of_int (round_half_even (\<bar>x\<bar> / 2 powi (e - 52))) * 2 powi (e - 52)"
proof -
  have pos: "0 < \<bar>x\<bar>"
    using lo by (smt (verit) zero_less_power_int)
  have l: "2 powr real_of_int e \<le> \<bar>x\<bar>"
    using lo by (simp add: powr_real_of_int')
  have "(2::real) powr real_of_int (e + 1) = 2 powi (e + 1)"
    by (rule powr_real_of_int') simp_all
  then have h: "\<bar>x\<bar> < 2 powr (real_of_int e + 1)"
    using hi by (simp add: add.commute)
  have "\<lfloor>log 2 \<bar>x\<bar>\<rfloor> = e"
    using pos l h by (simp add: floor_log_eq_powr_iff)
  then show ?thesis
    using pos by (simp add: round_to_double_def Let_def)
qed


lemma perturb_components_eq:
  "perturb_components pert cs g =
     (map2 (\<lambda>c xi. c * (1 + pert * xi)) cs (map g [0..<length cs]), \<lambda>n. g (n + length cs))"
proof (induction cs arbitrary: g)
  case Nil
  then show ?case by simp
next
  case (Cons c cs)
  have shift: "map (\<lambda>n. g (Suc n)) [0..<length cs] = map g [Suc 0..<Suc (length cs)]"
    by (simp add: map_Suc_upt[symmetric] del: upt_Suc)
  have upt: "[0..<Suc (length cs)] = 0 # [Suc 0..<Suc (length cs)]"
    by (simp add: upt_conv_Cons del: upt_Suc)
  show ?case
    unfolding perturb_components.simps draw_def Let_def prod.case Cons.IH length_Cons upt
    by (simp add: shift del: upt_Suc)
qed

lemma state_components_of_components:
  assumes "2 \<le> length cs"
  shows "state_components (state_of_components cs) = cs"
proof -
  obtain c cs' where cs: "cs = c # cs'"
    using assms by (cases cs) auto
  have ne: "cs' \<noteq> []"
    using assms cs by auto
  show ?thesis
    using ne by (simp add: cs state_components_def state_of_components_def)
qed

lemma length_state_components: "length (state_components s) = 2 + length (momentum s)"
  by (simp add: state_components_def)

lemma sublist_middle: "sublist s (pre @ s @ post)"
  by (auto simp: sublist_def)

lemma emit_dispatch_no_match:
  assumes "e \<notin> set names"
  shows "emit_dispatch (map Dispatch_callable names) d e executed = Inr executed"
  using assms by (induction names) (auto simp: Dispatch_callable_def)

lemma find_None_names:
  assumes "n \<notin> f ` set xs"
  shows "find (\<lambda>it. f it = n) xs = None"
  using assms by (induction xs) auto

subsection \<open>Loops that update one row at a time\<close>

lemma fold_nth_unchanged:
  assumes "\<And>j q. j \<in> set xs \<Longrightarrow> f j q ! k = q ! k"
  shows "fold f xs p ! k = p ! k"
  using assms by (induction xs arbitrary: p) simp_all

lemma fold_length_unchanged:
  assumes "\<And>j q. length (f j q) = length q"
  shows "length (fold f xs p) = length p"
  using assms by (induction xs arbitrary: p) simp_all

lemma fold_fst_unchanged:
  assumes len: "\<And>j q. length (f j q) = length q"
    and fst: "\<And>j q k. k < length q \<Longrightarrow> fst (f j q ! k) = fst (q ! k)"
    and k: "k < length p"
  shows "fst (fold f xs p ! k) = fst (p ! k)"
  using k
proof (induction xs arbitrary: p)
  case Nil
  then show ?case by simp
next
  case (Cons x xs)
  have "k < length (f x p)"
    using Cons.prems by (simp add: len)
  then have "fst (fold f xs (f x p) ! k) = fst (f x p ! k)"
    by (rule Cons.IH)
  then show ?case
    using Cons.prems by (simp add: fst)
qed

lemma fold_upt_nth:
  assumes other: "\<And>j q. j \<noteq> i \<Longrightarrow> f j q ! i = q ! i"
    and range: "left \<le> i" "i < right"
  shows "fold f [left..<right] p ! i = f i (fold f [left..<i] p) ! i"
proof -
  have split: "[left..<right] = [left..<i] @ i # [Suc i..<right]"
    using range by (metis le_add_diff_inverse less_imp_le_nat upt_add_eq_append upt_conv_Cons)
  have "fold f [Suc i..<right] q ! i = q ! i" for q
    by (rule fold_nth_unchanged) (simp add: other)
  then show ?thesis
    by (simp add: split)
qed

lemma fold_min_Min:
  fixes h :: "'a \<Rightarrow> real"
  shows "fold (\<lambda>c g. min g (h c)) cs g0 = Min (insert g0 (h ` set cs))"
proof (induction cs arbitrary: g0)
  case Nil
  then show ?case by simp
next
  case (Cons c cs)
  have "fold (\<lambda>c g. min g (h c)) (c # cs) g0 = Min (insert (min g0 (h c)) (h ` set cs))"
    by (simp add: Cons.IH)
  also have "\<dots> = Min (insert g0 (insert (h c) (h ` set cs)))"
  proof (cases "cs = []")
    case True
    then show ?thesis by (simp add: min.commute)
  next
    case False
    then have ne: "h ` set cs \<noteq> {}" by simp
    show ?thesis
      using ne by (simp add: Min_insert min.assoc)
  qed
  finally show ?case by simp
qed

subsection \<open>The rows of the sweeps\<close>

lemma cycle_0_scalar_row_length [simp]:
  "length (cycle_0_scalar_row hs sp U j q) = length q"
  by (simp add: cycle_0_scalar_row_def Let_def)

lemma cycle_0_scalar_row_other:
  "j \<noteq> k \<Longrightarrow> cycle_0_scalar_row hs sp U j q ! k = q ! k"
  by (simp add: cycle_0_scalar_row_def Let_def)

lemma cycle_0_scalar_row_constrained:
  "row_length sp k = 1 \<Longrightarrow> cycle_0_scalar_row hs sp U j q ! k = q ! k"
  by (cases "j = k") (simp_all add: cycle_0_scalar_row_def Let_def)

lemma cycle_0_scalar_row_self:
  assumes "i < length q" and "row_length sp i \<noteq> 1"
  shows "cycle_0_scalar_row hs sp U i q ! i = (nodal_pressure hs U i, nodal_gamma hs U i, 0, 0)"
  using assms by (simp add: cycle_0_scalar_row_def Let_def nodal_pressure_def nodal_gamma_def)

lemma cycle_0_vector_row_length [simp]:
  "length (cycle_0_vector_row hs sp U offset p j q) = length q"
  by (simp add: cycle_0_vector_row_def Let_def)

lemma cycle_0_vector_row_other:
  "offset + j \<noteq> k \<Longrightarrow> cycle_0_vector_row hs sp U offset p j q ! k = q ! k"
  by (simp add: cycle_0_vector_row_def Let_def)

lemma cycle_0_vector_row_self:
  assumes "i < length q" and "row_length sp i \<noteq> 1"
  shows "cycle_0_vector_row hs sp U 0 p i q ! i = (p ! i, surrogate_gamma hs (U ! i) (p ! i), 0, 0)"
  using assms by (simp add: cycle_0_vector_row_def Let_def)

lemma cycle_1_row_length [simp]:
  "length (cycle_1_row hs sp U j q) = length q"
  by (simp add: cycle_1_row_def Let_def split_beta)

lemma cycle_1_row_other:
  "j \<noteq> k \<Longrightarrow> cycle_1_row hs sp U j q ! k = q ! k"
  by (simp add: cycle_1_row_def Let_def split_beta)

lemma cycle_1_row_constrained:
  "row_length sp k = 1 \<Longrightarrow> cycle_1_row hs sp U j q ! k = q ! k"
  by (cases "j = k") (simp_all add: cycle_1_row_def Let_def split_beta)

lemma cycle_1_row_fst:
  "k < length q \<Longrightarrow> fst (cycle_1_row hs sp U j q ! k) = fst (q ! k)"
  by (cases "j = k") (simp_all add: cycle_1_row_def Let_def split_beta)

lemma cycle_1_row_self:
  assumes "i < length q" and "row_length sp i \<noteq> 1"
  shows "cycle_1_row hs sp U i q ! i =
     (let gamma_min =
        fold (\<lambda>col_idx g. min g (surrogate_gamma hs (U ! (columns sp i ! col_idx))
                                    (fst (q ! (columns sp i ! col_idx)))))
          [1..<row_length sp i] (fst (snd (q ! i)))
      in (fst (q ! i), gamma_min,
          surrogate_specific_entropy hs (U ! i) gamma_min,
          surrogate_harten_entropy hs (U ! i) gamma_min))"
  using assms by (simp add: cycle_1_row_def Let_def split_beta)

subsection \<open>The sweeps\<close>

lemma precomputation_cycle_0_scalar_length [simp]:
  "length (precomputation_cycle_0_scalar hs sp U left right prec) = length prec"
  by (simp add: precomputation_cycle_0_scalar_def fold_length_unchanged)

lemma precomputation_cycle_0_vector_length [simp]:
  "length (precomputation_cycle_0_vector hs sp U left right prec) = length prec"
  by (simp add: precomputation_cycle_0_vector_def Let_def fold_length_unchanged)

lemma precomputation_cycle_1_length [simp]:
  "length (precomputation_cycle_1 hs sp U left right prec) = length prec"
  by (simp add: precomputation_cycle_1_def fold_length_unchanged)

lemma precomputation_cycle_0_scalar_constrained:
  assumes "row_length sp k = 1"
  shows "precomputation_cycle_0_scalar hs sp U left right prec ! k = prec ! k"
  unfolding precomputation_cycle_0_scalar_def
  by (rule fold_nth_unchanged) (simp add: cycle_0_scalar_row_constrained assms)

lemma precomputation_cycle_1_constrained:
  assumes "row_length sp k = 1"
  shows "precomputation_cycle_1 hs sp U left right prec ! k = prec ! k"
  unfolding precomputation_cycle_1_def
  by (rule fold_nth_unchanged) (simp add: cycle_1_row_constrained assms)

lemma precomputation_cycle_0_scalar_result:
  assumes "left \<le> i" and "i < right" and "i < length prec" and "row_length sp i \<noteq> 1"
  shows "precomputation_cycle_0_scalar hs sp U left right prec ! i
           = (nodal_pressure hs U i, nodal_gamma hs U i, 0, 0)"
proof -
  have "precomputation_cycle_0_scalar hs sp U left right prec ! i
          = cycle_0_scalar_row hs sp U i (fold (cycle_0_scalar_row hs sp U) [left..<i] prec) ! i"
    unfolding precomputation_cycle_0_scalar_def
    using assms(1,2) by (intro fold_upt_nth) (simp_all add: cycle_0_scalar_row_other)
  also have "\<dots> = (nodal_pressure hs U i, nodal_gamma hs U i, 0, 0)"
    using assms(3,4) by (intro cycle_0_scalar_row_self) (simp_all add: fold_length_unchanged)
  finally show ?thesis .
qed

lemma pressure_vector_nth:
  assumes "i < n"
  shows "pressure_vector eos (map f [0..<n]) (map g [0..<n]) ! i = pressure eos (f i) (g i)"
  using assms by (simp add: pressure_vector_def)

lemma precomputation_cycle_0_vector_result:
  assumes "i < right" and "i < length prec" and "row_length sp i \<noteq> 1"
  shows "precomputation_cycle_0_vector hs sp U 0 right prec ! i
           = (nodal_pressure hs U i, nodal_gamma hs U i, 0, 0)"
proof -
  define p where "p = pressure_vector (selected_equation_of_state hs)
      (map (\<lambda>i. density (U ! i)) [0..<right])
      (map (\<lambda>i. internal_energy (U ! i) / density (U ! i)) [0..<right])"
  have pi: "p ! i = nodal_pressure hs U i"
    unfolding p_def using assms(1)
    by (simp add: pressure_vector_nth nodal_pressure_def eos_pressure_def)
  have "precomputation_cycle_0_vector hs sp U 0 right prec ! i
          = fold (cycle_0_vector_row hs sp U 0 p) [0..<right] prec ! i"
    by (simp add: precomputation_cycle_0_vector_def Let_def p_def)
  also have "\<dots> = cycle_0_vector_row hs sp U 0 p i
                      (fold (cycle_0_vector_row hs sp U 0 p) [0..<i] prec) ! i"
    using assms(1) by (intro fold_upt_nth) (simp_all add: cycle_0_vector_row_other)
  also have "\<dots> = (p ! i, surrogate_gamma hs (U ! i) (p ! i), 0, 0)"
    using assms(2,3) by (intro cycle_0_vector_row_self) (simp_all add: fold_length_unchanged)
  finally show ?thesis
    by (simp add: pi nodal_gamma_def)
qed

lemma precomputation_cycle_1_result:
  assumes range: "left \<le> i" "i < right" "i < length prec"
    and unconstrained: "row_length sp i \<noteq> 1"
    and cols: "\<And>c. c \<in> {1..<row_length sp i} \<Longrightarrow> columns sp i ! c < length prec"
  shows "precomputation_cycle_1 hs sp U left right prec ! i =
     (let gamma_min =
        fold (\<lambda>col_idx g. min g (surrogate_gamma hs (U ! (columns sp i ! col_idx))
                                    (fst (prec ! (columns sp i ! col_idx)))))
          [1..<row_length sp i] (fst (snd (prec ! i)))
      in (fst (prec ! i), gamma_min,
          surrogate_specific_entropy hs (U ! i) gamma_min,
          surrogate_harten_entropy hs (U ! i) gamma_min))"
proof -
  define q where "q = fold (cycle_1_row hs sp U) [left..<i] prec"
  have len: "length q = length prec"
    by (simp add: q_def fold_length_unchanged)
  have qi: "q ! i = prec ! i"
    unfolding q_def by (rule fold_nth_unchanged) (simp add: cycle_1_row_other)
  have qfst: "fst (q ! k) = fst (prec ! k)" if "k < length prec" for k
    unfolding q_def using that
    by (intro fold_fst_unchanged) (simp_all add: cycle_1_row_fst)
  have inner: "fold (\<lambda>col_idx g. min g (surrogate_gamma hs (U ! (columns sp i ! col_idx))
                                    (fst (q ! (columns sp i ! col_idx)))))
          [1..<row_length sp i] g0
      = fold (\<lambda>col_idx g. min g (surrogate_gamma hs (U ! (columns sp i ! col_idx))
                                    (fst (prec ! (columns sp i ! col_idx)))))
          [1..<row_length sp i] g0" for g0
    by (rule fold_cong) (simp_all add: qfst cols)
  have "precomputation_cycle_1 hs sp U left right prec ! i = cycle_1_row hs sp U i q ! i"
    unfolding precomputation_cycle_1_def q_def
    using range(1,2) by (intro fold_upt_nth) (simp_all add: cycle_1_row_other)
  also have "\<dots> =
     (let gamma_min =
        fold (\<lambda>col_idx g. min g (surrogate_gamma hs (U ! (columns sp i ! col_idx))
                                    (fst (q ! (columns sp i ! col_idx)))))
          [1..<row_length sp i] (fst (snd (q ! i)))
      in (fst (q ! i), gamma_min,
          surrogate_specific_entropy hs (U ! i) gamma_min,
          surrogate_harten_entropy hs (U ! i) gamma_min))"
    using range(3) unconstrained by (intro cycle_1_row_self) (simp_all add: len)
  finally show ?thesis
    unfolding inner qi .
qed

lemma cycle_0_vector_row_constrained:
  "row_length sp k = 1 \<Longrightarrow> cycle_0_vector_row hs sp U 0 p j q ! k = q ! k"
  by (cases "j = k") (simp_all add: cycle_0_vector_row_def Let_def)

subsection \<open>Surrogate pressure and surrogate gamma\<close>

text \<open>
  C1.  The claim is that \<open>surrogate_pressure(U, surrogate_gamma(U, p))\<close> returns \<open>p\<close>
  for every state of positive density and every pressure; the documentation of
  \<open>surrogate_pressure\<close> states the same property.  For a pressure with
  \<open>p + p_infty < 0\<close> the function \<open>surrogate_gamma\<close> clamps the numerator to zero and
  returns \<open>1\<close>, and \<open>surrogate_pressure\<close> returns \<open>- p_infty\<close>: with \<open>p_infty = 0\<close>, the state
  \<open>[1, 0, 1]\<close> and \<open>p = -1\<close> the result is \<open>0\<close>.  Such a pressure comes from the pressure
  oracle itself: the Van der Waals equation of state with \<open>a = 1\<close> returns
  \<open>p = -14/25\<close> for the state \<open>[1, 0, 1/10]\<close>, and the round trip returns \<open>0\<close>.
\<close>

theorem surrogate_pressure_surrogate_gamma_negative_pressure:
  "0 < density \<lparr>density = 1, momentum = [0], total_energy = 1\<rparr>
   \<and> surrogate_gamma van_der_waals_system
        \<lparr>density = 1, momentum = [0], total_energy = 1\<rparr> (- 1) = 1
   \<and> surrogate_pressure van_der_waals_system \<lparr>density = 1, momentum = [0], total_energy = 1\<rparr>
        (surrogate_gamma van_der_waals_system
           \<lparr>density = 1, momentum = [0], total_energy = 1\<rparr> (- 1)) = 0
   \<and> eos_pressure van_der_waals_attraction_system 1 (1 / 10) = - (14 / 25)
   \<and> surrogate_pressure van_der_waals_attraction_system
        \<lparr>density = 1, momentum = [0], total_energy = 1 / 10\<rparr>
        (surrogate_gamma van_der_waals_attraction_system
           \<lparr>density = 1, momentum = [0], total_energy = 1 / 10\<rparr>
           (eos_pressure van_der_waals_attraction_system 1 (1 / 10))) = 0"
  by (simp add: surrogate_pressure_def surrogate_gamma_def Let_def safe_division_def
      positive_part_def internal_energy_def norm_square_def eos_pressure_def
      eos_interpolation_b_def eos_interpolation_pinfty_def eos_interpolation_q_def
      van_der_waals_attraction_system_def van_der_waals_system_def VanDerWaals_def)

subsection \<open>Admissibility\<close>

text \<open>
  C2.  The claim is that \<open>is_admissible\<close> holds exactly if \<open>rho > 0\<close> and
  \<open>rho e \<ge> rho q + p_infty (1 - b rho)\<close>.  The function compares the shifted internal
  energy with \<open>greater_than\<close>: a state whose shifted internal energy is zero is not
  admissible.  With the strict inequality the equivalence holds, for a scalar state
  and in every lane of a vectorized state.
\<close>

theorem is_admissible_strict:
  "(is_admissible hs U \<longleftrightarrow>
      density U > 0 \<and>
      internal_energy U > density U * eos_interpolation_q hs
         + eos_interpolation_pinfty hs * (1 - eos_interpolation_b hs * density U))
   \<and> (is_admissible_simd hs lanes \<longleftrightarrow>
      (\<forall>U \<in> set lanes.
         density U > 0 \<and>
         internal_energy U > density U * eos_interpolation_q hs
           + eos_interpolation_pinfty hs * (1 - eos_interpolation_b hs * density U)))"
proof -
  have one: "admissibility_test hs V = 0 \<longleftrightarrow>
      density V > 0 \<and>
      internal_energy V > density V * eos_interpolation_q hs
         + eos_interpolation_pinfty hs * (1 - eos_interpolation_b hs * density V)" for V
    by (auto simp: admissibility_test_def Let_def compare_and_apply_mask_gt_def)
  show ?thesis
    by (simp add: is_admissible_def is_admissible_simd_def list_all_iff one)
qed

theorem is_admissible_counterexample:
  "\<not> (is_admissible van_der_waals_system \<lparr>density = 1, momentum = [0], total_energy = 0\<rparr>
       \<longleftrightarrow>
       density \<lparr>density = 1, momentum = [0], total_energy = 0\<rparr> > 0 \<and>
       internal_energy \<lparr>density = 1, momentum = [0], total_energy = 0\<rparr>
         \<ge> density \<lparr>density = 1, momentum = [0], total_energy = 0\<rparr>
               * eos_interpolation_q van_der_waals_system
             + eos_interpolation_pinfty van_der_waals_system
               * (1 - eos_interpolation_b van_der_waals_system
                        * density \<lparr>density = 1, momentum = [0], total_energy = 0\<rparr>))"
  by (simp add: is_admissible_def admissibility_test_def Let_def compare_and_apply_mask_gt_def
      internal_energy_def norm_square_def)

theorem is_admissible_strict_witness:
  "is_admissible van_der_waals_system \<lparr>density = 1, momentum = [1], total_energy = 1\<rparr>
   \<and> is_admissible_simd van_der_waals_system
        [\<lparr>density = 1, momentum = [1], total_energy = 1\<rparr>,
         \<lparr>density = 2, momentum = [0], total_energy = 3\<rparr>]
   \<and> \<not> is_admissible_simd van_der_waals_system
        [\<lparr>density = 1, momentum = [1], total_energy = 1\<rparr>,
         \<lparr>density = 1, momentum = [0], total_energy = 0\<rparr>]"
  using is_admissible_strict
    [of van_der_waals_system "\<lparr>density = 1, momentum = [1], total_energy = 1\<rparr>"
        "[\<lparr>density = 1, momentum = [1], total_energy = 1\<rparr>,
          \<lparr>density = 2, momentum = [0], total_energy = 3\<rparr>]"]
    is_admissible_strict
    [of van_der_waals_system "\<lparr>density = 1, momentum = [1], total_energy = 1\<rparr>"
        "[\<lparr>density = 1, momentum = [1], total_energy = 1\<rparr>,
          \<lparr>density = 1, momentum = [0], total_energy = 0\<rparr>]"]
  by (simp add: internal_energy_def norm_square_def)

subsection \<open>Safe division\<close>

text \<open>
  C5.  For every numerator and denominator, zero and negative denominators included,
  \<open>safe_division\<close> returns the positive part of the numerator divided by the maximum of
  the denominator and the smallest positive normalized number; the result is not
  negative and the divisor is positive, so that no division by zero takes place.
\<close>

theorem safe_division_clamps:
  "safe_division numerator denominator
     = max numerator 0 / max denominator numeric_limits_min
   \<and> 0 \<le> safe_division numerator denominator
   \<and> 0 < max denominator numeric_limits_min"
  using numeric_limits_min_pos safe_division_nonneg
  by (simp add: safe_division_def less_max_iff_disj)

subsection \<open>Primitive and conserved states\<close>

text \<open>
  C7.  The claim is that converting a conserved state of nonzero density to the
  primitive state \<open>[rho, v, e]\<close> and back gives the state again, exactly.  The code
  computes \<open>m * (1 / rho) * rho\<close> with three roundings: for the state \<open>[49, 1, 1]\<close> the
  momentum comes back as \<open>9007199254740991 / 9007199254740992\<close>, the double below \<open>1\<close>.  What holds is: the density is returned
  exactly in floating point arithmetic, and the whole state is returned exactly when
  the same operations are carried out in exact arithmetic.
\<close>

theorem from_primitive_state_to_primitive_state:
  "density (from_primitive_state round_to_double (to_primitive_state round_to_double U))
     = density U
   \<and> (density U \<noteq> 0 \<longrightarrow>
        from_primitive_state (\<lambda>x. x) (to_primitive_state (\<lambda>x. x) U) = U)"
  using round_trip_exact [of U]
  by (simp add: from_primitive_state_def to_primitive_state_def Let_def)

theorem from_primitive_state_to_primitive_state_counterexample:
  "density \<lparr>density = 49, momentum = [1], total_energy = 1\<rparr> \<noteq> 0
   \<and> momentum (from_primitive_state round_to_double
        (to_primitive_state round_to_double \<lparr>density = 49, momentum = [1], total_energy = 1\<rparr>))
       = [9007199254740991 / 9007199254740992]
   \<and> from_primitive_state round_to_double
        (to_primitive_state round_to_double \<lparr>density = 49, momentum = [1], total_energy = 1\<rparr>)
       \<noteq> \<lparr>density = 49, momentum = [1], total_energy = 1\<rparr>"
proof -
  have inverse: "round_to_double (1 / 49) = 5882252574524729 / 288230376151711744"
    using round_to_double_eval [of "- 6" "1 / 49"]
    by (simp add: round_half_even_def power_int_minus Let_def)
  have velocity: "round_to_double (5882252574524729 / 288230376151711744)
                    = 5882252574524729 / 288230376151711744"
    using round_to_double_eval [of "- 6" "5882252574524729 / 288230376151711744"]
    by (simp add: round_half_even_def power_int_minus Let_def)
  have product: "round_to_double (288230376151711721 / 288230376151711744)
                   = 9007199254740991 / 9007199254740992"
    using round_to_double_eval [of "- 1" "288230376151711721 / 288230376151711744"]
    by (simp add: round_half_even_def power_int_minus Let_def)
  have result: "momentum (from_primitive_state round_to_double
          (to_primitive_state round_to_double
             \<lparr>density = 49, momentum = [1], total_energy = 1\<rparr>))
        = [9007199254740991 / 9007199254740992]"
    by (simp add: from_primitive_state_def to_primitive_state_def Let_def inverse velocity
        product)
  then have "momentum (from_primitive_state round_to_double
          (to_primitive_state round_to_double
             \<lparr>density = 49, momentum = [1], total_energy = 1\<rparr>))
        \<noteq> momentum \<lparr>density = 49, momentum = [1], total_energy = 1\<rparr>"
    by simp
  then show ?thesis
    using result by auto
qed

theorem from_primitive_state_to_primitive_state_witness:
  "density \<lparr>density = 2, momentum = [4, 6], total_energy = 10\<rparr> \<noteq> 0
   \<and> density (from_primitive_state round_to_double
        (to_primitive_state round_to_double
           \<lparr>density = 2, momentum = [4, 6], total_energy = 10\<rparr>)) = 2
   \<and> from_primitive_state (\<lambda>x. x)
        (to_primitive_state (\<lambda>x. x) \<lparr>density = 2, momentum = [4, 6], total_energy = 10\<rparr>)
       = \<lparr>density = 2, momentum = [4, 6], total_energy = 10\<rparr>"
  using from_primitive_state_to_primitive_state
    [of "\<lparr>density = 2, momentum = [4, 6], total_energy = 10\<rparr>"]
  by simp

subsection \<open>Surrogate speed of sound\<close>

text \<open>
  C9.  For every state and every gamma, \<open>surrogate_speed_of_sound\<close> is the square root
  of the positive part of
  \<open>gamma (gamma - 1) [rho e - rho q - p_infty (1 - b rho)] / (rho (1 - b rho)\<^sup>2)\<close>: the
  result is not negative, and neither is the argument of the square root.
\<close>

theorem surrogate_speed_of_sound_clamped:
  "surrogate_speed_of_sound hs U gamma =
     sqrt (positive_part
       (gamma * (gamma - 1) *
          (internal_energy U - density U * eos_interpolation_q hs
             - eos_interpolation_pinfty hs * (1 - eos_interpolation_b hs * density U))
        / (density U * (1 - eos_interpolation_b hs * density U)\<^sup>2)))
   \<and> 0 \<le> surrogate_speed_of_sound hs U gamma
   \<and> 0 \<le> positive_part
       (gamma * (gamma - 1) *
          (internal_energy U - density U * eos_interpolation_q hs
             - eos_interpolation_pinfty hs * (1 - eos_interpolation_b hs * density U))
        / (density U * (1 - eos_interpolation_b hs * density U)\<^sup>2))"
  by (simp add: surrogate_speed_of_sound_def Let_def positive_part_def power2_eq_square
      mult.commute mult.left_commute)

subsection \<open>Dynamic boundary conditions\<close>


text \<open>
  A state of zero density and zero momentum is returned as it is: its normal velocity
  is not a number.
\<close>

lemma apply_boundary_conditions_dynamic_zero_density:
  "apply_boundary_conditions debug hs dynamic
      \<lparr>density = 0, momentum = [0], total_energy = 1\<rparr> [1] U_bar
     = Inr \<lparr>density = 0, momentum = [0], total_energy = 1\<rparr>"
  by (simp add: apply_boundary_conditions_def Let_def ieee_divide_def dot_def ieee_less_def
      ieee_less_eq_def ieee_greater_def ieee_greater_eq_def)

subsection \<open>Perturbation of the initial state\<close>

text \<open>
  C10.  When a nonzero perturbation is configured, the initial state function returns
  the unperturbed initial state at every time \<open>t > 0\<close>; at a time \<open>t \<le> 0\<close> every
  component of the state is multiplied by \<open>1 + perturbation * xi\<close>, with \<open>xi\<close> the next
  number drawn from the random engine.
\<close>

theorem perturbation_only_at_initial_time:
  assumes cb: "parse_parameters_callback dim' this = Inr r"
    and it: "find (\<lambda>it. initial_state_name it = configuration this) (initial_state_list this)
               = Some it"
    and pert: "perturbation this \<noteq> 0"
  shows "(0 < t \<longrightarrow>
            fst ((fst (snd r)) point t g) = fst (unperturbed_initial_state dim' (fst r) it point t g))
       \<and> (t \<le> 0 \<longrightarrow>
            state_components (fst ((fst (snd r)) point t g)) =
              map2 (\<lambda>c xi. c * (1 + perturbation this * xi))
                (state_components (fst (unperturbed_initial_state dim' (fst r) it point t g)))
                (map g [0..<2 + length (momentum
                   (fst (unperturbed_initial_state dim' (fst r) it point t g)))]))"
proof -
  define this' where
    "this' = this\<lparr>initial_direction :=
               tensor_div (initial_direction this) (sqrt (norm_square (initial_direction this)))\<rparr>"
  have r: "r = (this', perturbed_initial_state (unperturbed_initial_state dim' this' it)
                  (perturbation this),
                \<lambda>point. initial_precomputations it
                   (affine_transform dim' (initial_direction this') (initial_position this') point))"
    using cb it pert
    by (auto simp: parse_parameters_callback_def Let_def this'_def split: if_splits)
  obtain s where s: "unperturbed_initial_state dim' this' it point t g = (s, g)"
    by (simp add: unperturbed_initial_state_def Let_def)
  have len: "2 \<le> length (fst (perturb_components (perturbation this) (state_components s) g))"
    by (simp add: perturb_components_eq length_state_components)
  show ?thesis
    unfolding r fst_conv snd_conv
    by (simp add: perturbed_initial_state_def s Let_def split_beta
        state_components_of_components[OF len])
       (simp add: perturb_components_eq length_state_components)
qed

theorem perturbation_only_at_initial_time_witness:
  "parse_parameters_callback 1 perturbed_uniform_initial_values =
     Inr (perturbed_uniform_initial_values,
          perturbed_initial_state
            (unperturbed_initial_state 1 perturbed_uniform_initial_values uniform_initial_state)
            (1 / 10),
          \<lambda>point. initial_precomputations uniform_initial_state
             (affine_transform 1 [1] [1] point))
   \<and> find (\<lambda>it. initial_state_name it = configuration perturbed_uniform_initial_values)
        (initial_state_list perturbed_uniform_initial_values) = Some uniform_initial_state
   \<and> perturbation perturbed_uniform_initial_values \<noteq> 0
   \<and> fst (perturbed_initial_state
            (unperturbed_initial_state 1 perturbed_uniform_initial_values uniform_initial_state)
            (1 / 10) [0] 1 (\<lambda>n. 1))
       = \<lparr>density = 1, momentum = [0], total_energy = 1\<rparr>
   \<and> state_components (fst (perturbed_initial_state
            (unperturbed_initial_state 1 perturbed_uniform_initial_values uniform_initial_state)
            (1 / 10) [0] 0 (\<lambda>n. 1)))
       = [11 / 10, 0, 11 / 10]"
proof -
  have cb: "parse_parameters_callback 1 perturbed_uniform_initial_values =
     Inr (perturbed_uniform_initial_values,
          perturbed_initial_state
            (unperturbed_initial_state 1 perturbed_uniform_initial_values uniform_initial_state)
            (1 / 10),
          \<lambda>point. initial_precomputations uniform_initial_state
             (affine_transform 1 [1] [1] point))"
    by (simp add: parse_parameters_callback_def perturbed_uniform_initial_values_def
        uniform_initial_state_def norm_square_def tensor_div_def Let_def)
  have it: "find (\<lambda>it. initial_state_name it = configuration perturbed_uniform_initial_values)
        (initial_state_list perturbed_uniform_initial_values) = Some uniform_initial_state"
    by (simp add: perturbed_uniform_initial_values_def uniform_initial_state_def)
  have pert: "perturbation perturbed_uniform_initial_values \<noteq> 0"
    by (simp add: perturbed_uniform_initial_values_def)
  have u: "unperturbed_initial_state (Suc 0) perturbed_uniform_initial_values uniform_initial_state
             point t g = (\<lparr>density = 1, momentum = [0], total_energy = 1\<rparr>, g)" for point t g
    by (simp add: unperturbed_initial_state_def uniform_initial_state_def Let_def
        apply_galilei_transform_def affine_transform_vector_def)
  have p: "perturbation perturbed_uniform_initial_values = 1 / 10"
    by (simp add: perturbed_uniform_initial_values_def)
  show ?thesis
    using perturbation_only_at_initial_time [OF cb it pert, of 1 "[0]" "\<lambda>n. 1"]
      perturbation_only_at_initial_time [OF cb it pert, of 0 "[0]" "\<lambda>n. 1"] cb it pert
    by (simp add: u p state_components_def eval_nat_numeral)
qed

subsection \<open>Configuration errors\<close>

text \<open>
  C8.  The claim is that every configuration error raises an exception that names the
  offending value.  The checks are made one after the other and the first that fails
  raises: \<open>dispatch\<close> checks the dimension, then that an equation has been registered
  at all, then that an equation was dispatched; the callback of the initial values
  checks the initial direction before it looks up the configuration.  An unknown
  configuration name together with a zero initial direction raises the exception
  about the direction, which does not name the configuration; a parameter file that
  sets no dimension and an unknown equation raises the exception about the dimension
  \<open>0\<close>, which does not name the equation.  What holds is:
  a dimension outside \<open>{1, 2, 3}\<close> raises an exception that names the dimension; with a
  dimension in range, a registered dispatcher and a fresh \<open>time_loop_executed\<close> flag, an
  equation name that matches no registered equation raises an exception that names the
  equation; an unknown equation of state raises an exception that names it; and, with
  a nonzero initial direction, an unknown initial state configuration raises an
  exception that names it.
\<close>

theorem configuration_errors_name_the_value:
  "(\<not> (1 \<le> dimension (parse_input parameter_file this)
        \<and> dimension (parse_input parameter_file this) \<le> 3) \<longrightarrow>
      (\<exists>msg. dispatch this parameter_file signals = Inl (ExcMessage msg)
             \<and> sublist (to_string (dimension (parse_input parameter_file this))) msg))
   \<and> (1 \<le> dimension (parse_input parameter_file this)
        \<and> dimension (parse_input parameter_file this) \<le> 3
        \<and> signals = Some s \<and> dispatch_signal s = map Dispatch_callable names
        \<and> equation (parse_input parameter_file this) \<notin> set names
        \<and> time_loop_executed this = False \<longrightarrow>
      (\<exists>msg. dispatch this parameter_file signals = Inl (ExcMessage msg)
             \<and> sublist (equation (parse_input parameter_file this)) msg))
   \<and> (equation_of_state hs \<notin> name ` set (equation_of_state_list hs) \<longrightarrow>
      (\<exists>msg. populate_functions hs = Inl (ExcMessage msg)
             \<and> sublist (equation_of_state hs) msg))
   \<and> (sqrt (norm_square (initial_direction iv)) \<noteq> 0
        \<and> configuration iv \<notin> initial_state_name ` set (initial_state_list iv) \<longrightarrow>
      (\<exists>msg. parse_parameters_callback dim' iv = Inl (ExcMessage msg)
             \<and> sublist (configuration iv) msg))"
proof (intro conjI impI)
  assume "\<not> (1 \<le> dimension (parse_input parameter_file this)
        \<and> dimension (parse_input parameter_file this) \<le> 3)"
  then have "dispatch this parameter_file signals =
      Inl (ExcMessage ((dave @ ''The dimension parameter needs to be '' @
                         ''either 1, 2, or 3, but we encountered '' @ raquo) @
                         to_string (dimension (parse_input parameter_file this)) @
                         (laquo @ [CHR 0x0A])))"
    by (simp add: dispatch_def Let_def)
  then show "\<exists>msg. dispatch this parameter_file signals = Inl (ExcMessage msg)
             \<and> sublist (to_string (dimension (parse_input parameter_file this))) msg"
    using sublist_middle by blast
next
  assume a: "1 \<le> dimension (parse_input parameter_file this)
        \<and> dimension (parse_input parameter_file this) \<le> 3
        \<and> signals = Some s \<and> dispatch_signal s = map Dispatch_callable names
        \<and> equation (parse_input parameter_file this) \<notin> set names
        \<and> time_loop_executed this = False"
  have tle: "time_loop_executed (parse_input parameter_file this) = False"
    using a by (simp add: parse_input_def)
  have "dispatch this parameter_file signals =
      Inl (ExcMessage ((dave @ ''No equation was dispatched '' @
                         ''with the chosen equation parameter '' @ raquo) @
                         equation (parse_input parameter_file this) @
                         (laquo @ ''.'' @ [CHR 0x0A])))"
    using a tle by (simp add: dispatch_def Let_def emit_dispatch_no_match)
  then show "\<exists>msg. dispatch this parameter_file signals = Inl (ExcMessage msg)
             \<and> sublist (equation (parse_input parameter_file this)) msg"
    using sublist_middle by blast
next
  assume "equation_of_state hs \<notin> name ` set (equation_of_state_list hs)"
  then have "populate_functions hs =
      Inl (ExcMessage ((''Could not find an equation of state description with name '' @
                           [CHR 0x22]) @ equation_of_state hs @ [CHR 0x22]))"
    by (simp add: populate_functions_def find_None_names)
  then show "\<exists>msg. populate_functions hs = Inl (ExcMessage msg)
             \<and> sublist (equation_of_state hs) msg"
    using sublist_middle by blast
next
  assume a: "sqrt (norm_square (initial_direction iv)) \<noteq> 0
        \<and> configuration iv \<notin> initial_state_name ` set (initial_state_list iv)"
  then have "parse_parameters_callback dim' iv =
      Inl (ExcMessage ((''Could not find an initial state description with name '' @
                                [CHR 0x22]) @ configuration iv @ [CHR 0x22]))"
    by (simp add: parse_parameters_callback_def Let_def find_None_names)
  then show "\<exists>msg. parse_parameters_callback dim' iv = Inl (ExcMessage msg)
             \<and> sublist (configuration iv) msg"
    using sublist_middle by blast
qed

theorem configuration_errors_counterexample:
  "parse_parameters_callback 1
      \<lparr>configuration = ''nonexistent'', initial_direction = [0], initial_position = [1],
       perturbation = 0, initial_state_list = [uniform_initial_state]\<rparr>
     = Inl (ExcMessage ''Initial direction is set to the zero vector.'')
   \<and> ''nonexistent'' \<notin> initial_state_name ` set [uniform_initial_state]
   \<and> \<not> sublist ''nonexistent'' ''Initial direction is set to the zero vector.''
   \<and> dispatch EquationDispatch_constructor
        \<lparr>set_dimension = None, set_equation = Some ''eulr''\<rparr> (Dispatch ''euler'' None)
     = Inl (ExcMessage (dave @ ''The dimension parameter needs to be '' @
                        ''either 1, 2, or 3, but we encountered '' @ raquo @ ''0'' @ laquo @
                        [CHR 0x0A]))
   \<and> \<not> sublist ''eulr''
         (dave @ ''The dimension parameter needs to be '' @
          ''either 1, 2, or 3, but we encountered '' @ raquo @ ''0'' @ laquo @ [CHR 0x0A])"
proof -
  have direction: "\<not> sublist ''nonexistent'' ''Initial direction is set to the zero vector.''"
    by code_simp
  have zero: "to_string 0 = ''0''"
    by code_simp
  have equation: "\<not> sublist ''eulr''
         (dave @ ''The dimension parameter needs to be '' @
          ''either 1, 2, or 3, but we encountered '' @ raquo @ ''0'' @ laquo @ [CHR 0x0A])"
    by code_simp
  have initial: "parse_parameters_callback 1
      \<lparr>configuration = ''nonexistent'', initial_direction = [0], initial_position = [1],
       perturbation = 0, initial_state_list = [uniform_initial_state]\<rparr>
     = Inl (ExcMessage ''Initial direction is set to the zero vector.'')"
    by (simp add: parse_parameters_callback_def norm_square_def)
  have name: "''nonexistent'' \<notin> initial_state_name ` set [uniform_initial_state]"
    by (simp add: uniform_initial_state_def)
  have dispatched: "dispatch EquationDispatch_constructor
        \<lparr>set_dimension = None, set_equation = Some ''eulr''\<rparr> (Dispatch ''euler'' None)
     = Inl (ExcMessage (dave @ ''The dimension parameter needs to be '' @
                        ''either 1, 2, or 3, but we encountered '' @ raquo @ ''0'' @ laquo @
                        [CHR 0x0A]))"
    by (simp add: dispatch_def parse_input_def EquationDispatch_constructor_def Let_def zero)
  show ?thesis
    using direction equation initial name dispatched by blast
qed

theorem configuration_errors_name_the_value_witness:
  "\<not> (1 \<le> dimension (parse_input \<lparr>set_dimension = Some 4, set_equation = Some ''euler''\<rparr>
                          EquationDispatch_constructor)
        \<and> dimension (parse_input \<lparr>set_dimension = Some 4, set_equation = Some ''euler''\<rparr>
                          EquationDispatch_constructor) \<le> 3)
   \<and> (\<exists>msg. dispatch EquationDispatch_constructor
               \<lparr>set_dimension = Some 4, set_equation = Some ''euler''\<rparr>
               (Dispatch ''euler'' None) = Inl (ExcMessage msg)
            \<and> sublist (to_string 4) msg)
   \<and> Dispatch ''euler'' None =
         Some \<lparr>create_parameter_files = [''euler''],
               dispatch_signal = map Dispatch_callable [''euler'']\<rparr>
   \<and> equation (parse_input \<lparr>set_dimension = Some 2, set_equation = Some ''eulr''\<rparr>
                     EquationDispatch_constructor) \<notin> set [''euler'']
   \<and> time_loop_executed EquationDispatch_constructor = False
   \<and> (\<exists>msg. dispatch EquationDispatch_constructor
               \<lparr>set_dimension = Some 2, set_equation = Some ''eulr''\<rparr>
               (Dispatch ''euler'' None) = Inl (ExcMessage msg)
            \<and> sublist ''eulr'' msg)
   \<and> ''tabulated'' \<notin> name ` set (equation_of_state_list van_der_waals_system)
   \<and> (\<exists>msg. populate_functions (van_der_waals_system\<lparr>equation_of_state := ''tabulated''\<rparr>)
               = Inl (ExcMessage msg)
            \<and> sublist ''tabulated'' msg)
   \<and> sqrt (norm_square (initial_direction perturbed_uniform_initial_values)) \<noteq> 0
   \<and> ''unifrom'' \<notin> initial_state_name ` set (initial_state_list perturbed_uniform_initial_values)
   \<and> (\<exists>msg. parse_parameters_callback 1
               (perturbed_uniform_initial_values\<lparr>configuration := ''unifrom''\<rparr>)
               = Inl (ExcMessage msg)
            \<and> sublist ''unifrom'' msg)"
proof -
  have sig: "Dispatch ''euler'' None =
         Some \<lparr>create_parameter_files = [''euler''],
               dispatch_signal = map Dispatch_callable [''euler'']\<rparr>"
    by (simp add: Dispatch_def register_dispatch_def register_create_parameter_files_def)
  have eos: "''tabulated'' \<notin> name ` set (equation_of_state_list van_der_waals_system)"
    by (simp add: van_der_waals_system_def VanDerWaals_def)
  have dir: "sqrt (norm_square (initial_direction perturbed_uniform_initial_values)) \<noteq> 0"
    by (simp add: perturbed_uniform_initial_values_def norm_square_def)
  have conf: "''unifrom'' \<notin>
      initial_state_name ` set (initial_state_list perturbed_uniform_initial_values)"
    by (simp add: perturbed_uniform_initial_values_def uniform_initial_state_def)
  note a = configuration_errors_name_the_value
    [where parameter_file = "\<lparr>set_dimension = Some 4, set_equation = Some ''euler''\<rparr>"
       and this = EquationDispatch_constructor and signals = "Dispatch ''euler'' None"
       and hs = "van_der_waals_system\<lparr>equation_of_state := ''tabulated''\<rparr>"
       and iv = "perturbed_uniform_initial_values\<lparr>configuration := ''unifrom''\<rparr>"
       and dim' = 1]
  note b = configuration_errors_name_the_value
    [where parameter_file = "\<lparr>set_dimension = Some 2, set_equation = Some ''eulr''\<rparr>"
       and this = EquationDispatch_constructor and signals = "Dispatch ''euler'' None"
       and s = "\<lparr>create_parameter_files = [''euler''],
                  dispatch_signal = map Dispatch_callable [''euler'']\<rparr>"
       and names = "[''euler'']"]
  show ?thesis
    using a b sig eos dir conf
    by (simp add: parse_input_def EquationDispatch_constructor_def)
qed

subsection \<open>The second precomputation cycle\<close>

text \<open>
  C3.  The claim is that cycle 1, run on the result of cycle 0, stores for every
  unconstrained node the minimum of the surrogate gamma over the one-ring of the node
  and the two entropies for that minimum.  Cycle 1 starts from the second entry that
  cycle 0 has stored for the node and reads the pressure that cycle 0 has stored for
  each neighbour.  In the vector mode of cycle 0 the test for a constrained row reads
  the row length of the loop index and not of the node: for a sweep over the nodes
  \<open>1\<close> and \<open>2\<close> with node \<open>0\<close> constrained, cycle 0 skips the unconstrained node \<open>1\<close>.
  Cycle 1 then finds the stale entry \<open>(0, 0, 0, 0)\<close>: it stores the pressure \<open>0\<close> and the
  minimum \<open>0\<close> for node \<open>1\<close>, where the pressure is \<open>2/5\<close> and the minimum of the
  surrogate gamma over the one-ring is \<open>7/5\<close>, and the minimum \<open>1\<close> for node \<open>2\<close>.
\<close>

theorem precomputation_cycle_1_stale_minimum:
  "row_length first_constrained_sparsity 1 \<noteq> 1
   \<and> precomputation_loop False vector_interface_system 0 first_constrained_sparsity
        (chain_states, [(0, 0, 0, 0), (0, 0, 0, 0), (0, 0, 0, 0)]) 1 3
     = Inr (chain_states, [(0, 0, 0, 0), (0, 0, 0, 0), (4, 7 / 5, 0, 0)])
   \<and> precomputation_loop False vector_interface_system 1 first_constrained_sparsity
        (chain_states, [(0, 0, 0, 0), (0, 0, 0, 0), (4, 7 / 5, 0, 0)]) 1 3
     = Inr (chain_states,
            [(0, 0, 0, 0),
             (0, 0,
              surrogate_specific_entropy vector_interface_system (chain_states ! 1) 0,
              surrogate_harten_entropy vector_interface_system (chain_states ! 1) 0),
             (4, 1,
              surrogate_specific_entropy vector_interface_system (chain_states ! 2) 1,
              surrogate_harten_entropy vector_interface_system (chain_states ! 2) 1)])
   \<and> nodal_pressure vector_interface_system chain_states 1 = 2 / 5
   \<and> Min (nodal_gamma vector_interface_system chain_states
            ` one_ring first_constrained_sparsity 1) = 7 / 5"
proof -
  have b: "eos_interpolation_b vector_interface_system = 0"
    and pinf: "eos_interpolation_pinfty vector_interface_system = 0"
    and q: "eos_interpolation_q vector_interface_system = 0"
    and vec: "prefer_vector_interface (selected_equation_of_state vector_interface_system)"
    by (simp_all add: eos_interpolation_b_def eos_interpolation_pinfty_def
        eos_interpolation_q_def vector_interface_system_def van_der_waals_system_def
        VanDerWaals_def)
  have press: "pressure (selected_equation_of_state vector_interface_system) rho e
                 = 2 / 5 * (rho * e)" for rho e
    by (simp add: vector_interface_system_def van_der_waals_system_def VanDerWaals_def)
  have unconstrained: "row_length first_constrained_sparsity 1 \<noteq> 1"
    by (simp add: first_constrained_sparsity_def)
  have states: "chain_states ! 1 = \<lparr>density = 1, momentum = [0], total_energy = 1\<rparr>"
    "chain_states ! 2 = \<lparr>density = 2, momentum = [0], total_energy = 10\<rparr>"
    "chain_states ! Suc 0 = \<lparr>density = 1, momentum = [0], total_energy = 1\<rparr>"
    by (simp_all add: chain_states_def)
  have energy: "internal_energy \<lparr>density = 1, momentum = [0], total_energy = 1\<rparr> = 1"
    "internal_energy \<lparr>density = 2, momentum = [0], total_energy = 10\<rparr> = 10"
    by (simp_all add: internal_energy_def norm_square_def)
  have clamp: "max (1::real) numeric_limits_min = 1" "max (10::real) numeric_limits_min = 10"
    using numeric_limits_min_le_one by (simp_all add: max_def)
  have gamma: "surrogate_gamma vector_interface_system
                 \<lparr>density = 2, momentum = [0], total_energy = 10\<rparr> 4 = 7 / 5"
    "surrogate_gamma vector_interface_system
                 \<lparr>density = 1, momentum = [0], total_energy = 1\<rparr> 0 = 1"
    "surrogate_gamma vector_interface_system
                 \<lparr>density = 1, momentum = [0], total_energy = 1\<rparr> (2 / 5) = 7 / 5"
    by (simp_all add: surrogate_gamma_def Let_def safe_division_def b pinf q energy clamp)
  have upt: "[0..<2] = [0, Suc 0]" "[Suc 0..<3] = [Suc 0, 2]" "[Suc 0..<2] = [Suc 0]"
    by (simp_all add: upt_conv_Cons)
  have cycle_0: "precomputation_loop False vector_interface_system 0 first_constrained_sparsity
        (chain_states, [(0, 0, 0, 0), (0, 0, 0, 0), (0, 0, 0, 0)]) 1 3
     = Inr (chain_states, [(0, 0, 0, 0), (0, 0, 0, 0), (4, 7 / 5, 0, 0)])"
    by (simp add: precomputation_loop_def precomputation_cycle_0_vector_def
        cycle_0_vector_row_def vec press pressure_vector_def Let_def
        first_constrained_sparsity_def chain_states_def energy gamma upt)
  have cycle_1: "precomputation_loop False vector_interface_system 1 first_constrained_sparsity
        (chain_states, [(0, 0, 0, 0), (0, 0, 0, 0), (4, 7 / 5, 0, 0)]) 1 3
     = Inr (chain_states,
            [(0, 0, 0, 0),
             (0, 0,
              surrogate_specific_entropy vector_interface_system (chain_states ! 1) 0,
              surrogate_harten_entropy vector_interface_system (chain_states ! 1) 0),
             (4, 1,
              surrogate_specific_entropy vector_interface_system (chain_states ! 2) 1,
              surrogate_harten_entropy vector_interface_system (chain_states ! 2) 1)])"
    by (simp add: precomputation_loop_def precomputation_cycle_1_def cycle_1_row_def
        Let_def first_constrained_sparsity_def chain_states_def gamma upt)
  have p1: "nodal_pressure vector_interface_system chain_states 1 = 2 / 5"
    by (simp add: nodal_pressure_def eos_pressure_def press states energy)
  have p2: "nodal_pressure vector_interface_system chain_states 2 = 4"
    by (simp add: nodal_pressure_def eos_pressure_def press states energy)
  have interval: "{Suc 0..<2} = {Suc 0}"
    by auto
  have ring: "one_ring first_constrained_sparsity 1 = {1, 2}"
    by (simp add: one_ring_def first_constrained_sparsity_def interval)
  have g: "nodal_gamma vector_interface_system chain_states 1 = 7 / 5"
    "nodal_gamma vector_interface_system chain_states 2 = 7 / 5"
    by (simp_all only: nodal_gamma_def p1 p2 states gamma)
  have m: "Min (nodal_gamma vector_interface_system chain_states
            ` one_ring first_constrained_sparsity 1) = 7 / 5"
  proof -
    have "Min (nodal_gamma vector_interface_system chain_states ` {1, 2})
            = min (nodal_gamma vector_interface_system chain_states 1)
                  (nodal_gamma vector_interface_system chain_states 2)"
      by (simp del: One_nat_def)
    then show ?thesis
      unfolding ring g by simp
  qed
  show ?thesis
    using unconstrained cycle_0 cycle_1 p1 m by blast
qed

text \<open>
  In the scalar mode of cycle 0, and in the vector mode for a sweep that starts at
  node \<open>0\<close>, the two cycles store the minimum over the one-ring for a node whose
  neighbours are unconstrained nodes of the same sweep.
\<close>

lemma precomputation_cycle_1_minimum:
  assumes mode: "prefer_vector_interface (selected_equation_of_state hs) \<longrightarrow> left = 0"
    and range: "left \<le> i" "i < right"
    and sizes: "right \<le> length (fst state_vector)" "right \<le> length (snd state_vector)"
    and unconstrained: "row_length sparsity_simd i \<noteq> 1"
    and neighbours:
      "\<forall>col_idx \<in> {1..<row_length sparsity_simd i}.
         left \<le> columns sparsity_simd i ! col_idx
         \<and> columns sparsity_simd i ! col_idx < right
         \<and> row_length sparsity_simd (columns sparsity_simd i ! col_idx) \<noteq> 1"
  shows "\<exists>sv0 sv1.
      precomputation_loop debug hs 0 sparsity_simd state_vector left right = Inr sv0
      \<and> precomputation_loop debug hs 1 sparsity_simd sv0 left right = Inr sv1
      \<and> snd sv1 ! i =
          (let U = fst state_vector;
               gamma_min = Min (nodal_gamma hs U ` one_ring sparsity_simd i)
           in (nodal_pressure hs U i, gamma_min,
               surrogate_specific_entropy hs (U ! i) gamma_min,
               surrogate_harten_entropy hs (U ! i) gamma_min))"
proof -
  define U where "U = fst state_vector"
  define prec where "prec = snd state_vector"
  define prec0 where
    "prec0 = (if prefer_vector_interface (selected_equation_of_state hs)
              then precomputation_cycle_0_vector hs sparsity_simd U left right prec
              else precomputation_cycle_0_scalar hs sparsity_simd U left right prec)"
  define prec1 where "prec1 = precomputation_cycle_1 hs sparsity_simd U left right prec0"
  have c0: "precomputation_loop debug hs 0 sparsity_simd state_vector left right = Inr (U, prec0)"
    by (simp add: precomputation_loop_def Let_def U_def prec_def prec0_def)
  have c1: "precomputation_loop debug hs 1 sparsity_simd (U, prec0) left right = Inr (U, prec1)"
    by (simp add: precomputation_loop_def Let_def prec1_def)
  have len0: "length prec0 = length prec"
    by (simp add: prec0_def)
  have entry0: "prec0 ! k = (nodal_pressure hs U k, nodal_gamma hs U k, 0, 0)"
    if "left \<le> k" "k < right" "row_length sparsity_simd k \<noteq> 1" for k
  proof -
    have k: "k < length prec"
      using that(2) sizes(2) by (simp add: prec_def)
    show ?thesis
    proof (cases "prefer_vector_interface (selected_equation_of_state hs)")
      case True
      with mode have "left = 0" by simp
      with True show ?thesis
        using that k by (simp add: prec0_def precomputation_cycle_0_vector_result)
    next
      case False
      then show ?thesis
        using that k by (simp add: prec0_def precomputation_cycle_0_scalar_result)
    qed
  qed
  have i: "i < length prec0"
    using range(2) sizes(2) by (simp add: len0 prec_def)
  have cols: "columns sparsity_simd i ! c < length prec0"
    if "c \<in> {1..<row_length sparsity_simd i}" for c
    using neighbours that sizes(2) by (force simp: len0 prec_def)
  have nb: "fst (prec0 ! (columns sparsity_simd i ! c))
              = nodal_pressure hs U (columns sparsity_simd i ! c)"
    if "c \<in> set [1..<row_length sparsity_simd i]" for c
    using neighbours that by (simp add: entry0)
  have inner: "fold (\<lambda>col_idx g. min g (surrogate_gamma hs (U ! (columns sparsity_simd i ! col_idx))
                                    (fst (prec0 ! (columns sparsity_simd i ! col_idx)))))
          [1..<row_length sparsity_simd i] g0
      = fold (\<lambda>col_idx g. min g (nodal_gamma hs U (columns sparsity_simd i ! col_idx)))
          [1..<row_length sparsity_simd i] g0" for g0
    by (rule fold_cong) (simp_all add: nb nodal_gamma_def)
  have gmin: "fold (\<lambda>col_idx g. min g (nodal_gamma hs U (columns sparsity_simd i ! col_idx)))
          [1..<row_length sparsity_simd i] (nodal_gamma hs U i)
        = Min (nodal_gamma hs U ` one_ring sparsity_simd i)"
    by (simp add: fold_min_Min one_ring_def image_image)
  have entry_i: "prec0 ! i = (nodal_pressure hs U i, nodal_gamma hs U i, 0, 0)"
    using range unconstrained by (simp add: entry0)
  have "prec1 ! i =
     (let gamma_min =
        fold (\<lambda>col_idx g. min g (surrogate_gamma hs (U ! (columns sparsity_simd i ! col_idx))
                                    (fst (prec0 ! (columns sparsity_simd i ! col_idx)))))
          [1..<row_length sparsity_simd i] (fst (snd (prec0 ! i)))
      in (fst (prec0 ! i), gamma_min,
          surrogate_specific_entropy hs (U ! i) gamma_min,
          surrogate_harten_entropy hs (U ! i) gamma_min))"
    unfolding prec1_def
    using range i unconstrained cols by (intro precomputation_cycle_1_result) simp_all
  then have "prec1 ! i =
     (let gamma_min = Min (nodal_gamma hs U ` one_ring sparsity_simd i)
      in (nodal_pressure hs U i, gamma_min,
          surrogate_specific_entropy hs (U ! i) gamma_min,
          surrogate_harten_entropy hs (U ! i) gamma_min))"
    unfolding inner entry_i fst_conv snd_conv gmin .
  then show ?thesis
    using c0 c1 by (simp add: U_def[symmetric])
qed

subsection \<open>Constrained degrees of freedom\<close>

text \<open>
  C4.  The claim is that every sweep leaves the precomputed values of a constrained
  node, a node whose row has length \<open>1\<close>, unchanged.  In the vector mode of cycle 0 the
  loop index \<open>i\<close> counts from \<open>0\<close> and the node is \<open>offset + i\<close>, but the test for a
  constrained row reads \<open>row_length(i)\<close>.  For a sweep that starts at node \<open>1\<close>, with
  node \<open>0\<close> unconstrained and node \<open>1\<close> constrained, the entry of node \<open>1\<close> is
  overwritten.
\<close>

theorem precomputation_loop_vector_overwrites_constrained:
  "row_length constrained_sparsity 1 = 1
   \<and> precomputation_loop False vector_interface_system 0 constrained_sparsity
        (chain_states, [(0, 0, 0, 0), (7, 7, 7, 7), (0, 0, 0, 0)]) 1 2
     = Inr (chain_states, [(0, 0, 0, 0), (2 / 5, 7 / 5, 0, 0), (0, 0, 0, 0)])"
  by (simp add: precomputation_loop_def precomputation_cycle_0_vector_def cycle_0_vector_row_def
      vector_interface_system_def van_der_waals_system_def VanDerWaals_def
      constrained_sparsity_def chain_states_def pressure_vector_def Let_def
      surrogate_gamma_def safe_division_def internal_energy_def norm_square_def
      eos_interpolation_b_def eos_interpolation_pinfty_def eos_interpolation_q_def
      numeric_limits_min_def)

text \<open>
  In the scalar mode of cycle 0, in cycle 1, and in the vector mode for a sweep that
  starts at node \<open>0\<close>, the entry of a constrained node is left unchanged.
\<close>

lemma precomputation_loop_skips_constrained:
  assumes "row_length sparsity_simd k = 1"
    and "cycle = 0 \<and> prefer_vector_interface (selected_equation_of_state hs) \<longrightarrow> left = 0"
    and "precomputation_loop debug hs cycle sparsity_simd state_vector left right = Inr sv"
  shows "snd sv ! k = snd state_vector ! k"
proof -
  have v: "precomputation_cycle_0_vector hs sparsity_simd U 0 right prec ! k = prec ! k"
    for U prec
    unfolding precomputation_cycle_0_vector_def Let_def
    by (rule fold_nth_unchanged) (simp add: cycle_0_vector_row_constrained assms(1))
  show ?thesis
    using assms
    by (auto simp: precomputation_loop_def Let_def precomputation_cycle_0_scalar_constrained
        precomputation_cycle_1_constrained v split: if_splits)
qed

end
